theory Spec2Isabelle
  imports Complex_Main
begin

section \<open>Numbers and vectors\<close>

text \<open>
  The numbers of the flight dynamics and of the input axes are modelled as the real
  numbers. The elevation field is modelled with its rounding: the samples as
  \<open>loadHeightmap\<close> stores them, and the height queries in double arithmetic beside
  their reading on the reals. The infinities and the sign of zero are outside the model,
  and NaN appears only as the result of reading past the height array. The operations of
  the three.js classes \<open>Vector3\<close> and \<open>Quaternion\<close> that the game calls are written out
  below.
\<close>

record Vector3 =
  x :: real
  y :: real
  z :: real

definition vec :: "real \<Rightarrow> real \<Rightarrow> real \<Rightarrow> Vector3" where
  "vec a b c = \<lparr>x = a, y = b, z = c\<rparr>"

definition vlength :: "Vector3 \<Rightarrow> real" where
  "vlength v = sqrt (x v * x v + y v * y v + z v * z v)"

definition vadd :: "Vector3 \<Rightarrow> Vector3 \<Rightarrow> Vector3" where
  "vadd a b = vec (x a + x b) (y a + y b) (z a + z b)"

definition multiplyScalar :: "Vector3 \<Rightarrow> real \<Rightarrow> Vector3" where
  "multiplyScalar v s = vec (x v * s) (y v * s) (z v * s)"

definition vdot :: "Vector3 \<Rightarrow> Vector3 \<Rightarrow> real" where
  "vdot a b = x a * x b + y a * y b + z a * z b"

text \<open>\<open>Vector3.normalize\<close> divides by \<open>length() || 1\<close>: the zero vector stays zero.\<close>

definition vnormalize :: "Vector3 \<Rightarrow> Vector3" where
  "vnormalize v =
     (let l = vlength v; d = (if l = 0 then 1 else l)
      in vec (x v / d) (y v / d) (z v / d))"

section \<open>Floating-point arithmetic\<close>

text \<open>
  JavaScript numbers are IEEE 754 binary64 values. Where a property is about the exact
  value a numeric expression returns, each operation is modelled as the exact operation
  followed by \<open>fl64\<close>: rounding to nearest, ties to even, to 53 significant bits.
  \<open>binade a\<close> is the exponent \<open>e\<close> with \<open>2^e \<le> |a| < 2^(e+1)\<close> and \<open>rne\<close> rounds to the
  nearest integer, ties to even. The exponent range is not bounded: overflow and
  subnormal numbers are outside this model, as are NaN and the sign of zero.
  A value stored in a \<open>Float32Array\<close> is rounded once more, to 24 significant bits:
  \<open>fl32\<close>.
\<close>

definition rne :: "real \<Rightarrow> int" where
  "rne t =
     (let f = \<lfloor>t\<rfloor>; r = t - real_of_int f
      in if r < 1 / 2 then f else if r > 1 / 2 then f + 1
         else if even f then f else f + 1)"

definition binade :: "real \<Rightarrow> int" where
  "binade a = \<lfloor>log 2 \<bar>a\<bar>\<rfloor>"

definition fl64 :: "real \<Rightarrow> real" where
  "fl64 a =
     (if a = 0 then 0
      else real_of_int (rne (a / 2 powr real_of_int (binade a - 52)))
             * 2 powr real_of_int (binade a - 52))"

definition eps64 :: real where
  "eps64 = 1 / 2 ^ 53"

definition fl32 :: "real \<Rightarrow> real" where
  "fl32 a =
     (if a = 0 then 0
      else real_of_int (rne (a / 2 powr real_of_int (binade a - 23)))
             * 2 powr real_of_int (binade a - 23))"


section \<open>InputManager\<close>

record InputManager =
  im_pitch :: real
  im_roll :: real
  keys_up :: bool
  keys_down :: bool
  keys_left :: bool
  keys_right :: bool
  touchActive :: bool
  touchStartX :: real
  touchStartY :: real
  touchCurrentX :: real
  touchCurrentY :: real

definition InputManager_new :: InputManager where
  "InputManager_new =
     \<lparr>im_pitch = 0, im_roll = 0,
      keys_up = False, keys_down = False, keys_left = False, keys_right = False,
      touchActive = False, touchStartX = 0, touchStartY = 0,
      touchCurrentX = 0, touchCurrentY = 0\<rparr>"

definition handleKeyDown :: "string \<Rightarrow> InputManager \<Rightarrow> InputManager" where
  "handleKeyDown code m =
     (if code = ''ArrowUp'' \<or> code = ''KeyW'' then m\<lparr>keys_up := True\<rparr>
      else if code = ''ArrowDown'' \<or> code = ''KeyS'' then m\<lparr>keys_down := True\<rparr>
      else if code = ''ArrowLeft'' \<or> code = ''KeyA'' then m\<lparr>keys_left := True\<rparr>
      else if code = ''ArrowRight'' \<or> code = ''KeyD'' then m\<lparr>keys_right := True\<rparr>
      else m)"

definition handleKeyUp :: "string \<Rightarrow> InputManager \<Rightarrow> InputManager" where
  "handleKeyUp code m =
     (if code = ''ArrowUp'' \<or> code = ''KeyW'' then m\<lparr>keys_up := False\<rparr>
      else if code = ''ArrowDown'' \<or> code = ''KeyS'' then m\<lparr>keys_down := False\<rparr>
      else if code = ''ArrowLeft'' \<or> code = ''KeyA'' then m\<lparr>keys_left := False\<rparr>
      else if code = ''ArrowRight'' \<or> code = ''KeyD'' then m\<lparr>keys_right := False\<rparr>
      else m)"

text \<open>The four touch listeners; the arguments are \<open>clientX\<close>, \<open>clientY\<close> of the first touch.\<close>

definition touchstart :: "real \<Rightarrow> real \<Rightarrow> InputManager \<Rightarrow> InputManager" where
  "touchstart cx cy m =
     m\<lparr>touchActive := True, touchStartX := cx, touchStartY := cy,
       touchCurrentX := cx, touchCurrentY := cy\<rparr>"

definition touchmove :: "real \<Rightarrow> real \<Rightarrow> InputManager \<Rightarrow> InputManager" where
  "touchmove cx cy m =
     (if \<not> touchActive m then m else m\<lparr>touchCurrentX := cx, touchCurrentY := cy\<rparr>)"

definition touchend :: "InputManager \<Rightarrow> InputManager" where
  "touchend m = m\<lparr>touchActive := False\<rparr>"

definition touchcancel :: "InputManager \<Rightarrow> InputManager" where
  "touchcancel m = m\<lparr>touchActive := False\<rparr>"

definition keyboard_pitch :: "InputManager \<Rightarrow> real" where
  "keyboard_pitch m =
     (if keys_up m then min (im_pitch m + 0.05) 1
      else if keys_down m then max (im_pitch m - 0.05) (-1)
      else im_pitch m * 0.9)"

definition keyboard_roll :: "InputManager \<Rightarrow> real" where
  "keyboard_roll m =
     (if keys_left m then max (im_roll m - 0.05) (-1)
      else if keys_right m then min (im_roll m + 0.05) 1
      else im_roll m * 0.9)"

definition im_update :: "InputManager \<Rightarrow> InputManager" where
  "im_update m =
     (let m1 = m\<lparr>im_pitch := keyboard_pitch m\<rparr>;
          m2 = m1\<lparr>im_roll := keyboard_roll m1\<rparr>
      in if touchActive m2 then
           (let maxDelta = 100;
                deltaX = touchCurrentX m2 - touchStartX m2;
                deltaY = touchCurrentY m2 - touchStartY m2
            in m2\<lparr>im_pitch := max (-1) (min 1 (- deltaY / maxDelta)),
                  im_roll := max (-1) (min 1 (deltaX / maxDelta))\<rparr>)
         else m2)"

definition getPitch :: "InputManager \<Rightarrow> real" where
  "getPitch m = im_pitch m"

definition getRoll :: "InputManager \<Rightarrow> real" where
  "getRoll m = im_roll m"

datatype input_event =
    KeyDown string
  | KeyUp string
  | TouchStart real real
  | TouchMove real real
  | TouchEnd
  | TouchCancel
  | Update

fun handle_event :: "InputManager \<Rightarrow> input_event \<Rightarrow> InputManager" where
  "handle_event m (KeyDown code) = handleKeyDown code m"
| "handle_event m (KeyUp code) = handleKeyUp code m"
| "handle_event m (TouchStart cx cy) = touchstart cx cy m"
| "handle_event m (TouchMove cx cy) = touchmove cx cy m"
| "handle_event m TouchEnd = touchend m"
| "handle_event m TouchCancel = touchcancel m"
| "handle_event m Update = im_update m"

definition run_events :: "input_event list \<Rightarrow> InputManager" where
  "run_events es = foldl handle_event InputManager_new es"

definition axes_in_range :: "InputManager \<Rightarrow> bool" where
  "axes_in_range m \<longleftrightarrow>
     - 1 \<le> getPitch m \<and> getPitch m \<le> 1 \<and> - 1 \<le> getRoll m \<and> getRoll m \<le> 1"

section \<open>LocalTerrainProvider\<close>

text \<open>
  The constructor reads each option as \<open>options.name || default\<close>: a missing option and
  the number 0 both give the default.
\<close>

record terrain_options =
  opt_width :: "real option"
  opt_depth :: "real option"
  opt_maxHeight :: "real option"
  opt_minHeight :: "real option"
  opt_segments :: "nat option"

record LocalTerrainProvider =
  terrainWidth :: real
  terrainDepth :: real
  maxHeight :: real
  minHeight :: real
  segments :: nat
  heightData :: "real list option"
  heightDataWidth :: int
  heightDataHeight :: int

definition or_default :: "'a::zero option \<Rightarrow> 'a \<Rightarrow> 'a" where
  "or_default v d = (case v of None \<Rightarrow> d | Some a \<Rightarrow> if a = 0 then d else a)"

definition LocalTerrainProvider_new :: "terrain_options \<Rightarrow> LocalTerrainProvider" where
  "LocalTerrainProvider_new options =
     \<lparr>terrainWidth = or_default (opt_width options) 3000,
      terrainDepth = or_default (opt_depth options) 3000,
      maxHeight = or_default (opt_maxHeight options) 8849,
      minHeight = or_default (opt_minHeight options) 0,
      segments = or_default (opt_segments options) 256,
      heightData = None,
      heightDataWidth = 0,
      heightDataHeight = 0\<rparr>"

text \<open>
  \<open>loadHeightmap\<close>, after the image has loaded: \<open>pixels\<close> is the RGBA byte array of an
  image of \<open>w\<close> by \<open>h\<close> pixels (so of length \<open>4 * w * h\<close>), and sample \<open>i\<close> is taken from
  the red channel \<open>pixels[i * 4]\<close>. The height is computed in double arithmetic and
  stored in a \<open>Float32Array\<close>.
\<close>

definition loadHeightmap :: "nat \<Rightarrow> nat \<Rightarrow> nat list \<Rightarrow> LocalTerrainProvider \<Rightarrow> LocalTerrainProvider" where
  "loadHeightmap w h pixels t =
     t\<lparr>heightDataWidth := int w,
       heightDataHeight := int h,
       heightData := Some (map (\<lambda>i. fl32 (fl64 (minHeight t
            + fl64 (fl64 (real (pixels ! (i * 4)) / 255)
                * fl64 (maxHeight t - minHeight t))))) [0..<w * h])\<rparr>"

text \<open>
  Reading \<open>heightData[i]\<close>: an index outside the array reads \<open>undefined\<close>, and the
  arithmetic that follows gives NaN. Reading an element of a null \<open>heightData\<close> throws a
  TypeError.
\<close>

datatype sample_failure = TypeError | NaN

definition heightData_at :: "real list \<Rightarrow> int \<Rightarrow> sample_failure + real" where
  "heightData_at d i = (if 0 \<le> i \<and> i < int (length d) then Inr (d ! nat i) else Inl NaN)"

text \<open>
  \<open>sampleHeightmap\<close> and \<open>getHeightAt\<close>, first with the arithmetic read on the reals.
\<close>

definition bilinear :: "real \<Rightarrow> real \<Rightarrow> real \<Rightarrow> real \<Rightarrow> real \<Rightarrow> real \<Rightarrow> real" where
  "bilinear h00 h10 h01 h11 fx fy =
     (let h0 = h00 * (1 - fx) + h10 * fx;
          h1 = h01 * (1 - fx) + h11 * fx
      in h0 * (1 - fy) + h1 * fy)"

definition sampleHeightmap :: "LocalTerrainProvider \<Rightarrow> real \<Rightarrow> real \<Rightarrow> sample_failure + real" where
  "sampleHeightmap t u0 v0 =
     (let u = max 0 (min 1 u0);
          v = max 0 (min 1 v0);
          px = u * real_of_int (heightDataWidth t - 1);
          py = v * real_of_int (heightDataHeight t - 1);
          x0 = \<lfloor>px\<rfloor>;
          y0 = \<lfloor>py\<rfloor>;
          x1 = min (x0 + 1) (heightDataWidth t - 1);
          y1 = min (y0 + 1) (heightDataHeight t - 1);
          fx = px - real_of_int x0;
          fy = py - real_of_int y0
      in case heightData t of
           None \<Rightarrow> Inl TypeError
         | Some d \<Rightarrow>
            (case (heightData_at d (y0 * heightDataWidth t + x0),
                   heightData_at d (y0 * heightDataWidth t + x1),
                   heightData_at d (y1 * heightDataWidth t + x0),
                   heightData_at d (y1 * heightDataWidth t + x1)) of
               (Inr h00, Inr h10, Inr h01, Inr h11) \<Rightarrow> Inr (bilinear h00 h10 h01 h11 fx fy)
             | _ \<Rightarrow> Inl NaN))"

definition getHeightAt :: "LocalTerrainProvider \<Rightarrow> real \<Rightarrow> real \<Rightarrow> sample_failure + real" where
  "getHeightAt t wx wz =
     (if heightData t = None then Inr 0
      else
        (let u = (wx + terrainWidth t / 2) / terrainWidth t;
             v = (wz + terrainDepth t / 2) / terrainDepth t
         in if u < 0 \<or> u > 1 \<or> v < 0 \<or> v > 1 then Inr 0
            else sampleHeightmap t u v))"

text \<open>
  The same two functions with the rounding of every arithmetic operation written out.
  \<open>W - 1\<close>, \<open>x0 + 1\<close> and the array indices are integers and exact.
\<close>

definition bilinear_f64 :: "real \<Rightarrow> real \<Rightarrow> real \<Rightarrow> real \<Rightarrow> real \<Rightarrow> real \<Rightarrow> real" where
  "bilinear_f64 h00 h10 h01 h11 fx fy =
     (let h0 = fl64 (fl64 (h00 * fl64 (1 - fx)) + fl64 (h10 * fx));
          h1 = fl64 (fl64 (h01 * fl64 (1 - fx)) + fl64 (h11 * fx))
      in fl64 (fl64 (h0 * fl64 (1 - fy)) + fl64 (h1 * fy)))"

definition sampleHeightmap_f64 :: "LocalTerrainProvider \<Rightarrow> real \<Rightarrow> real \<Rightarrow> sample_failure + real" where
  "sampleHeightmap_f64 t u0 v0 =
     (let u = max 0 (min 1 u0);
          v = max 0 (min 1 v0);
          px = fl64 (u * real_of_int (heightDataWidth t - 1));
          py = fl64 (v * real_of_int (heightDataHeight t - 1));
          x0 = \<lfloor>px\<rfloor>;
          y0 = \<lfloor>py\<rfloor>;
          x1 = min (x0 + 1) (heightDataWidth t - 1);
          y1 = min (y0 + 1) (heightDataHeight t - 1);
          fx = fl64 (px - real_of_int x0);
          fy = fl64 (py - real_of_int y0)
      in case heightData t of
           None \<Rightarrow> Inl TypeError
         | Some d \<Rightarrow>
            (case (heightData_at d (y0 * heightDataWidth t + x0),
                   heightData_at d (y0 * heightDataWidth t + x1),
                   heightData_at d (y1 * heightDataWidth t + x0),
                   heightData_at d (y1 * heightDataWidth t + x1)) of
               (Inr h00, Inr h10, Inr h01, Inr h11) \<Rightarrow>
                 Inr (bilinear_f64 h00 h10 h01 h11 fx fy)
             | _ \<Rightarrow> Inl NaN))"


record terrain_bounds =
  minX :: real
  maxX :: real
  minZ :: real
  maxZ :: real
  bounds_width :: real
  bounds_depth :: real

definition getBounds :: "LocalTerrainProvider \<Rightarrow> terrain_bounds" where
  "getBounds t =
     \<lparr>minX = - terrainWidth t / 2,
      maxX = terrainWidth t / 2,
      minZ = - terrainDepth t / 2,
      maxZ = terrainDepth t / 2,
      bounds_width = terrainWidth t,
      bounds_depth = terrainDepth t\<rparr>"

text \<open>A loaded elevation field: at least one sample per row and column, and an array
  of exactly \<open>width * height\<close> samples, as \<open>loadHeightmap\<close> builds it.\<close>

definition field_loaded :: "LocalTerrainProvider \<Rightarrow> real list \<Rightarrow> bool" where
  "field_loaded t d \<longleftrightarrow>
     heightData t = Some d \<and> 1 \<le> heightDataWidth t \<and> 1 \<le> heightDataHeight t
     \<and> int (length d) = heightDataWidth t * heightDataHeight t"

section \<open>Quaternion\<close>

record Quaternion =
  qx :: real
  qy :: real
  qz :: real
  qw :: real

definition quat_identity :: Quaternion where
  "quat_identity = \<lparr>qx = 0, qy = 0, qz = 0, qw = 1\<rparr>"

text \<open>\<open>Quaternion.setFromEuler\<close> for an Euler triple \<open>(ex, ey, ez)\<close> of order \<open>'YXZ'\<close>.\<close>

definition setFromEuler_YXZ :: "real \<Rightarrow> real \<Rightarrow> real \<Rightarrow> Quaternion" where
  "setFromEuler_YXZ ex ey ez =
     (let c1 = cos (ex / 2); c2 = cos (ey / 2); c3 = cos (ez / 2);
          s1 = sin (ex / 2); s2 = sin (ey / 2); s3 = sin (ez / 2)
      in \<lparr>qx = s1 * c2 * c3 + c1 * s2 * s3,
          qy = c1 * s2 * c3 - s1 * c2 * s3,
          qz = c1 * c2 * s3 - s1 * s2 * c3,
          qw = c1 * c2 * c3 + s1 * s2 * s3\<rparr>)"

text \<open>\<open>Vector3.applyQuaternion\<close>: \<open>v + w * t + cross(q.xyz, t)\<close> with \<open>t = 2 * cross(q.xyz, v)\<close>.\<close>

definition applyQuaternion :: "Vector3 \<Rightarrow> Quaternion \<Rightarrow> Vector3" where
  "applyQuaternion v q =
     (let tx = 2 * (qy q * z v - qz q * y v);
          ty = 2 * (qz q * x v - qx q * z v);
          tz = 2 * (qx q * y v - qy q * x v)
      in vec (x v + qw q * tx + qy q * tz - qz q * ty)
             (y v + qw q * ty + qz q * tx - qx q * tz)
             (z v + qw q * tz + qx q * ty - qy q * tx))"

definition radToDeg :: "real \<Rightarrow> real" where
  "radToDeg r = r * (180 / pi)"

section \<open>Glider\<close>

text \<open>
  The physics constants are fields that the constructor sets and nothing assigns again;
  they are constants here. The mesh only mirrors \<open>position\<close> and \<open>rotation\<close> for
  rendering and is left out.
\<close>

definition gravity :: real where "gravity = 9.81"
definition maxSpeed :: real where "maxSpeed = 80"
definition minSpeed :: real where "minSpeed = 10"
definition baseDrag :: real where "baseDrag = 0.02"
definition liftCoefficient :: real where "liftCoefficient = 0.8"
definition pitchRate :: real where "pitchRate = 1.5"
definition rollRate :: real where "rollRate = 2.0"
definition yawFromRoll :: real where "yawFromRoll = 0.5"

record Glider =
  position :: Vector3
  velocity :: Vector3
  rotation :: Quaternion
  pitch :: real
  roll :: real
  yaw :: real
  pitchInput :: real
  rollInput :: real
  crashed :: bool
  debugLift :: real
  debugAoA :: real

text \<open>
  The constructor declares the single parameter \<open>scene\<close>. \<open>Game.init\<close> calls
  \<open>new Glider(this.scene, this.terrainProvider)\<close>; JavaScript drops the second argument,
  so the glider keeps no terrain provider.
\<close>

definition Glider_new :: "LocalTerrainProvider option \<Rightarrow> Glider" where
  "Glider_new terrainProvider =
     \<lparr>position = vec 0 1000 0,
      velocity = vec 0 0 (- 20),
      rotation = quat_identity,
      pitch = 0, roll = 0, yaw = 0,
      pitchInput = 0, rollInput = 0,
      crashed = False,
      debugLift = 0, debugAoA = 0\<rparr>"

definition setInput :: "real \<Rightarrow> real \<Rightarrow> Glider \<Rightarrow> Glider" where
  "setInput p r g = g\<lparr>pitchInput := p, rollInput := r\<rparr>"

definition getSpeed :: "Glider \<Rightarrow> real" where
  "getSpeed g = vlength (velocity g)"

definition getSpeedKmh :: "Glider \<Rightarrow> real" where
  "getSpeedKmh g = getSpeed g * 3.6"


definition getForwardDirection :: "Glider \<Rightarrow> Vector3" where
  "getForwardDirection g = applyQuaternion (vec 0 0 (- 1)) (rotation g)"

definition crash :: "Glider \<Rightarrow> Glider" where
  "crash g = g\<lparr>crashed := True, velocity := vec 0 0 0\<rparr>"

definition reset :: "Glider \<Rightarrow> Glider" where
  "reset g =
     g\<lparr>position := vec 0 1000 0,
       velocity := vec 0 0 (- 20),
       pitch := 0, roll := 0, yaw := 0,
       rotation := quat_identity,
       crashed := False\<rparr>"

definition updateRotation :: "real \<Rightarrow> Glider \<Rightarrow> Glider" where
  "updateRotation deltaTime g =
     (let pitch1 = pitch g + pitchInput g * pitchRate * deltaTime;
          pitch2 = max (- pi / 3) (min (pi / 3) pitch1);
          roll1 = roll g + rollInput g * rollRate * deltaTime;
          roll2 = max (- pi / 2) (min (pi / 2) roll1);
          yawRate = sin roll2 * yawFromRoll * getSpeed g / 20;
          yaw1 = yaw g + yawRate * deltaTime;
          roll3 = (if \<bar>rollInput g\<bar> < 0.1 then roll2 * (1 - 0.5 * deltaTime) else roll2)
      in g\<lparr>pitch := pitch2, roll := roll3, yaw := yaw1,
            rotation := setFromEuler_YXZ pitch2 yaw1 roll3\<rparr>)"

text \<open>
  The blocks of \<open>updatePhysics\<close>, in the order of the source. \<open>speed\<close>, \<open>forward\<close>,
  \<open>velocityDir\<close> and \<open>angleOfAttack\<close> are the locals computed at the top of the
  function, before gravity is applied.
\<close>

definition angleOfAttack_of :: "Vector3 \<Rightarrow> Vector3 \<Rightarrow> real" where
  "angleOfAttack_of forward velocityDir =
     arccos (max (- 1) (min 1 (vdot forward velocityDir)))"

definition apply_gravity :: "real \<Rightarrow> Glider \<Rightarrow> Glider" where
  "apply_gravity deltaTime g =
     g\<lparr>velocity := (velocity g)\<lparr>y := y (velocity g) - gravity * deltaTime\<rparr>\<rparr>"

definition apply_lift :: "real \<Rightarrow> real \<Rightarrow> Glider \<Rightarrow> Glider" where
  "apply_lift speed deltaTime g =
     (if speed > minSpeed then
        (let speedFactor = min (speed / 30) 1.5;
             pitchFactor = cos (pitch g);
             liftMagnitude = liftCoefficient * speedFactor * pitchFactor * gravity;
             liftDir = applyQuaternion (vec 0 1 0) (rotation g)
         in g\<lparr>debugLift := liftMagnitude,
               velocity := vadd (velocity g) (multiplyScalar liftDir (liftMagnitude * deltaTime))\<rparr>)
      else g\<lparr>debugLift := 0\<rparr>)"

definition apply_drag :: "real \<Rightarrow> Vector3 \<Rightarrow> real \<Rightarrow> real \<Rightarrow> Glider \<Rightarrow> Glider" where
  "apply_drag speed velocityDir angleOfAttack deltaTime g =
     (let dragCoeff0 = baseDrag;
          dragCoeff1 = (if pitch g > 0.1 then dragCoeff0 + pitch g * 0.05 else dragCoeff0);
          dragCoeff = dragCoeff1 + angleOfAttack * 0.02;
          dragForce = speed * speed * dragCoeff * deltaTime
      in if speed > 0.1
         then g\<lparr>velocity := vadd (velocity g) (multiplyScalar velocityDir (- dragForce))\<rparr>
         else g)"

definition apply_dive :: "Vector3 \<Rightarrow> real \<Rightarrow> Glider \<Rightarrow> Glider" where
  "apply_dive forward deltaTime g =
     (if pitch g < - 0.1 \<and> y (velocity g) < 0 then
        (let diveBoost = \<bar>pitch g\<bar> * 0.3 * deltaTime;
             currentSpeed = getSpeed g
         in if currentSpeed < maxSpeed
            then g\<lparr>velocity := vadd (velocity g) (multiplyScalar forward (diveBoost * 10))\<rparr>
            else g)
      else g)"

definition clamp_speed :: "Glider \<Rightarrow> Glider" where
  "clamp_speed g =
     (if getSpeed g > maxSpeed
      then g\<lparr>velocity := multiplyScalar (vnormalize (velocity g)) maxSpeed\<rparr>
      else g)"

definition integrate_position :: "real \<Rightarrow> Glider \<Rightarrow> Glider" where
  "integrate_position deltaTime g =
     g\<lparr>position := vadd (position g) (multiplyScalar (velocity g) deltaTime)\<rparr>"

definition ground_check :: "Glider \<Rightarrow> Glider" where
  "ground_check g = (if y (position g) < 0 then crash g else g)"

definition updatePhysics :: "real \<Rightarrow> Glider \<Rightarrow> Glider" where
  "updatePhysics deltaTime g =
     (let speed = getSpeed g;
          forward = applyQuaternion (vec 0 0 (- 1)) (rotation g);
          velocityDir = vnormalize (velocity g);
          angleOfAttack = angleOfAttack_of forward velocityDir;
          g0 = g\<lparr>debugAoA := radToDeg angleOfAttack\<rparr>;
          g1 = apply_gravity deltaTime g0;
          g2 = apply_lift speed deltaTime g1;
          g3 = apply_drag speed velocityDir angleOfAttack deltaTime g2;
          g4 = apply_dive forward deltaTime g3;
          g5 = clamp_speed g4;
          g6 = integrate_position deltaTime g5
      in ground_check g6)"

definition update :: "real \<Rightarrow> Glider \<Rightarrow> Glider" where
  "update deltaTime0 g =
     (if crashed g then g
      else
        (let deltaTime = min deltaTime0 0.1
         in updatePhysics deltaTime (updateRotation deltaTime g)))"

text \<open>The per-tick contract of the specification: write the inputs, then update.\<close>

definition step :: "real \<Rightarrow> real \<Rightarrow> real \<Rightarrow> Glider \<Rightarrow> Glider" where
  "step pIn rIn dt g = update dt (setInput pIn rIn g)"

fun steps :: "(real \<times> real \<times> real) list \<Rightarrow> Glider \<Rightarrow> Glider" where
  "steps [] g = g"
| "steps ((pIn, rIn, dt) # rest) g = steps rest (step pIn rIn dt g)"

section \<open>Boundary steering\<close>

text \<open>
  The two \<open>while\<close> loops of \<open>applyBoundaryForce\<close> that normalise the angle difference,
  and \<open>Math.atan2\<close>.
\<close>

function while_above_pi :: "real \<Rightarrow> real" where
  "while_above_pi d = (if d > pi then while_above_pi (d - 2 * pi) else d)"
  by pat_completeness auto
termination
proof (relation "measure (\<lambda>d. nat \<lceil>(d - pi) / (2 * pi)\<rceil>)")
  show "wf (measure (\<lambda>d. nat \<lceil>(d - pi) / (2 * pi)\<rceil>))" by simp
next
  fix d :: real
  assume gt: "pi < d"
  have e: "(d - 2 * pi - pi) / (2 * pi) = (d - pi) / (2 * pi) - 1"
    by (simp add: field_simps)
  have pos: "0 < (d - pi) / (2 * pi)" using gt by simp
  then have "0 < \<lceil>(d - pi) / (2 * pi)\<rceil>" by linarith
  then have "nat \<lceil>(d - pi) / (2 * pi) - 1\<rceil> < nat \<lceil>(d - pi) / (2 * pi)\<rceil>"
    by simp
  then have "nat \<lceil>(d - 2 * pi - pi) / (2 * pi)\<rceil> < nat \<lceil>(d - pi) / (2 * pi)\<rceil>"
    by (simp only: e)
  then show "(d - 2 * pi, d) \<in> measure (\<lambda>d. nat \<lceil>(d - pi) / (2 * pi)\<rceil>)"
    by (simp only: in_measure)
qed

function while_below_minus_pi :: "real \<Rightarrow> real" where
  "while_below_minus_pi d = (if d < - pi then while_below_minus_pi (d + 2 * pi) else d)"
  by pat_completeness auto
termination
proof (relation "measure (\<lambda>d. nat \<lceil>(- pi - d) / (2 * pi)\<rceil>)")
  show "wf (measure (\<lambda>d. nat \<lceil>(- pi - d) / (2 * pi)\<rceil>))" by simp
next
  fix d :: real
  assume lt: "d < - pi"
  have e: "(- pi - (d + 2 * pi)) / (2 * pi) = (- pi - d) / (2 * pi) - 1"
    by (simp add: field_simps)
  have pos: "0 < (- pi - d) / (2 * pi)" using lt by simp
  then have "0 < \<lceil>(- pi - d) / (2 * pi)\<rceil>" by linarith
  then have "nat \<lceil>(- pi - d) / (2 * pi) - 1\<rceil> < nat \<lceil>(- pi - d) / (2 * pi)\<rceil>"
    by simp
  then have "nat \<lceil>(- pi - (d + 2 * pi)) / (2 * pi)\<rceil> < nat \<lceil>(- pi - d) / (2 * pi)\<rceil>"
    by (simp only: e)
  then show "(d + 2 * pi, d) \<in> measure (\<lambda>d. nat \<lceil>(- pi - d) / (2 * pi)\<rceil>)"
    by (simp only: in_measure)
qed

text \<open>
  \<open>Math.atan2\<close> on the reals. The sign of a zero argument is not modelled:
  \<open>Math.atan2(-0, -1)\<close> is \<open>-\<pi>\<close> and \<open>Math.atan2(0, -0)\<close> is \<open>\<pi>\<close>, where this function
  gives \<open>\<pi>\<close> and \<open>0\<close>.
\<close>

definition atan2 :: "real \<Rightarrow> real \<Rightarrow> real" where
  "atan2 b a =
     (if a > 0 then arctan (b / a)
      else if a < 0 \<and> b \<ge> 0 then arctan (b / a) + pi
      else if a < 0 \<and> b < 0 then arctan (b / a) - pi
      else if b > 0 then pi / 2
      else if b < 0 then - pi / 2
      else 0)"


definition applyBoundaryForce :: "Vector3 \<Rightarrow> real \<Rightarrow> Glider \<Rightarrow> Glider" where
  "applyBoundaryForce directionToCenter strength g =
     (let targetYaw = atan2 (x directionToCenter) (- z directionToCenter);
          yawDiff = targetYaw - yaw g;
          normalizedDiff = while_below_minus_pi (while_above_pi yawDiff)
      in g\<lparr>yaw := yaw g + normalizedDiff * strength * 0.02\<rparr>)"

text \<open>The local \<open>normalizedDiff\<close> of \<open>applyBoundaryForce\<close>, as a function of its inputs.\<close>

definition normalizedDiff_of :: "Vector3 \<Rightarrow> Glider \<Rightarrow> real" where
  "normalizedDiff_of directionToCenter g =
     while_below_minus_pi (while_above_pi
        (atan2 (x directionToCenter) (- z directionToCenter) - yaw g))"

text \<open>The yaw correction of one call: the change of \<open>yaw\<close>.\<close>

definition yaw_correction :: "Vector3 \<Rightarrow> real \<Rightarrow> Glider \<Rightarrow> real" where
  "yaw_correction directionToCenter strength g =
     yaw (applyBoundaryForce directionToCenter strength g) - yaw g"

section \<open>Game\<close>

record Game =
  glider :: Glider
  inputManager :: InputManager
  terrainProvider :: LocalTerrainProvider
  loading :: bool

text \<open>
  \<open>loadTerrain\<close> with the heightmap image given by its size and RGBA bytes, and the
  state \<open>init\<close> leaves when it starts the game loop.
\<close>

definition loadTerrain :: "nat \<Rightarrow> nat \<Rightarrow> nat list \<Rightarrow> LocalTerrainProvider" where
  "loadTerrain w h pixels =
     loadHeightmap w h pixels
       (LocalTerrainProvider_new
          \<lparr>opt_width = Some 5700, opt_depth = Some 3000, opt_maxHeight = Some 2000,
           opt_minHeight = None, opt_segments = Some 256\<rparr>)"

definition Game_init :: "nat \<Rightarrow> nat \<Rightarrow> nat list \<Rightarrow> Game" where
  "Game_init w h pixels =
     (let tp = loadTerrain w h pixels
      in \<lparr>glider = Glider_new (Some tp),
          inputManager = InputManager_new,
          terrainProvider = tp,
          loading = False\<rparr>)"

definition buffer_zone :: real where "buffer_zone = 100"

definition distToEdge_x :: "LocalTerrainProvider \<Rightarrow> Vector3 \<Rightarrow> real" where
  "distToEdge_x t pos =
     max (x pos - (maxX (getBounds t) - buffer_zone)) ((minX (getBounds t) + buffer_zone) - x pos)"

definition distToEdge_z :: "LocalTerrainProvider \<Rightarrow> Vector3 \<Rightarrow> real" where
  "distToEdge_z t pos =
     max (z pos - (maxZ (getBounds t) - buffer_zone)) ((minZ (getBounds t) + buffer_zone) - z pos)"

definition checkBoundaries :: "LocalTerrainProvider \<Rightarrow> Glider \<Rightarrow> Glider" where
  "checkBoundaries t g =
     (let pos = position g;
          dx = distToEdge_x t pos;
          dz = distToEdge_z t pos
      in if dx > 0 \<or> dz > 0 then
           (let toCenter = vnormalize (vec (- x pos) 0 (- z pos));
                strength = max dx dz / buffer_zone
            in applyBoundaryForce toCenter (min strength 1) g)
         else g)"

definition restart :: "Game \<Rightarrow> Game" where
  "restart game = game\<lparr>glider := reset (glider game)\<rparr>"

text \<open>One frame of \<open>animate\<close>, \<open>deltaTime\<close> being what the clock returns; the camera, HUD,
  debug panel and renderer only read the glider.\<close>

definition animate :: "real \<Rightarrow> Game \<Rightarrow> Game" where
  "animate deltaTime game =
     (if loading game then game
      else
        (let im = im_update (inputManager game);
             g1 = setInput (getPitch im) (getRoll im) (glider game);
             g2 = update deltaTime g1;
             g3 = checkBoundaries (terrainProvider game) g2
         in game\<lparr>inputManager := im, glider := g3\<rparr>))"

section \<open>Predicates of the specification\<close>

definition within_limits :: "Glider \<Rightarrow> bool" where
  "within_limits g \<longleftrightarrow>
     \<bar>pitch g\<bar> \<le> pi / 3 \<and> \<bar>roll g\<bar> \<le> pi / 2 \<and> getSpeed g \<le> maxSpeed"

text \<open>The glider lies inside the buffered interior of the terrain footprint.\<close>

definition inside_buffer :: "LocalTerrainProvider \<Rightarrow> Vector3 \<Rightarrow> bool" where
  "inside_buffer t pos \<longleftrightarrow>
     minX (getBounds t) + buffer_zone \<le> x pos \<and> x pos \<le> maxX (getBounds t) - buffer_zone
     \<and> minZ (getBounds t) + buffer_zone \<le> z pos \<and> z pos \<le> maxZ (getBounds t) - buffer_zone"

section \<open>Scenario A: the glide with zero input\<close>

text \<open>\<open>n\<close> consecutive steps with \<open>pitchInput = 0\<close>, \<open>rollInput = 0\<close> and \<open>dt = 1/60\<close>.\<close>

definition glide :: "nat \<Rightarrow> Glider \<Rightarrow> Glider" where
  "glide n g = steps (replicate n (0, 0, 1 / 60)) g"

text \<open>
  The states of the glide before the crash: level, flying in the plane \<open>x = 0\<close>, not
  climbing, and no faster than 30 m/s.
\<close>

definition glide_inv :: "Glider \<Rightarrow> bool" where
  "glide_inv g \<longleftrightarrow>
     \<not> crashed g \<and> pitch g = 0 \<and> roll g = 0 \<and> yaw g = 0
     \<and> x (velocity g) = 0 \<and> y (velocity g) \<le> 0 \<and> getSpeed g \<le> 30
     \<and> x (position g) = 0"

text \<open>
  In level flight: the lift magnitude at speed \<open>s\<close>, and the fraction of the velocity
  that the drag block removes at speed \<open>s\<close> and angle of attack \<open>a\<close>.
\<close>

definition glide_lift :: "real \<Rightarrow> real" where
  "glide_lift s = (if s > minSpeed then liftCoefficient * min (s / 30) 1.5 * gravity else 0)"

definition glide_drag :: "real \<Rightarrow> real \<Rightarrow> real \<Rightarrow> real" where
  "glide_drag s a dt = (if s > 0.1 then s * (baseDrag + a * 0.02) * dt else 0)"

section \<open>Facts about rounding\<close>

lemma rne_error: "\<bar>real_of_int (rne t) - t\<bar> \<le> 1 / 2"
proof -
  have "0 \<le> t - real_of_int \<lfloor>t\<rfloor>" "t - real_of_int \<lfloor>t\<rfloor> < 1" by linarith+
  then show ?thesis by (auto simp add: rne_def Let_def)
qed

lemma rne_of_int: "rne (real_of_int n) = n"
  by (simp add: rne_def)

lemma binade_eqI:
  assumes "2 powr real_of_int e \<le> \<bar>a\<bar>" "\<bar>a\<bar> < 2 powr real_of_int (e + 1)"
  shows "binade a = e"
proof -
  have "0 < 2 powr real_of_int e" by simp
  then have "0 < \<bar>a\<bar>" using assms(1) by linarith
  then show ?thesis
    unfolding binade_def using assms
    by (subst floor_log_eq_powr_iff) simp_all
qed

lemma binade_bounds:
  assumes "a \<noteq> 0"
  shows "2 powr real_of_int (binade a) \<le> \<bar>a\<bar>"
    and "\<bar>a\<bar> < 2 powr real_of_int (binade a + 1)"
proof -
  have "0 < \<bar>a\<bar>" using assms by simp
  then have "2 powr real_of_int (binade a) \<le> \<bar>a\<bar> \<and> \<bar>a\<bar> < 2 powr real_of_int (binade a + 1)"
    using floor_log_eq_powr_iff [of "\<bar>a\<bar>" 2 "binade a"] by (simp add: binade_def)
  then show "2 powr real_of_int (binade a) \<le> \<bar>a\<bar>"
    and "\<bar>a\<bar> < 2 powr real_of_int (binade a + 1)" by simp_all
qed

lemma fl64_zero [simp]: "fl64 0 = 0"
  by (simp add: fl64_def)

lemma fl64_eval:
  assumes "2 powr real_of_int e \<le> \<bar>a\<bar>" "\<bar>a\<bar> < 2 powr real_of_int (e + 1)"
  shows "fl64 a = real_of_int (rne (a / 2 powr real_of_int (e - 52))) * 2 powr real_of_int (e - 52)"
proof -
  have "0 < 2 powr real_of_int e" by simp
  then have "a \<noteq> 0" using assms(1) by auto
  then show ?thesis by (simp add: fl64_def binade_eqI [OF assms])
qed

lemma fl64_error: "\<bar>fl64 a - a\<bar> \<le> eps64 * \<bar>a\<bar>"
proof (cases "a = 0")
  case True
  then show ?thesis by simp
next
  case False
  define q where "q = 2 powr real_of_int (binade a - 52)"
  have q0: "0 < q" by (simp add: q_def)
  have q: "q / 2 = eps64 * 2 powr real_of_int (binade a)"
    by (simp add: q_def eps64_def powr_diff)
  have "fl64 a - a = q * (real_of_int (rne (a / q)) - a / q)"
    using False q0 by (simp add: fl64_def q_def algebra_simps)
  then have "\<bar>fl64 a - a\<bar> = q * \<bar>real_of_int (rne (a / q)) - a / q\<bar>"
    using q0 by (simp add: abs_mult)
  also have "\<dots> \<le> q * (1 / 2)"
    using q0 rne_error [of "a / q"] by (intro mult_left_mono) auto
  also have "\<dots> = eps64 * 2 powr real_of_int (binade a)" using q by simp
  also have "\<dots> \<le> eps64 * \<bar>a\<bar>"
    using binade_bounds(1) [OF False] by (intro mult_left_mono) (auto simp add: eps64_def)
  finally show ?thesis .
qed

lemma fl64_error_bound: "\<bar>a\<bar> \<le> B \<Longrightarrow> \<bar>fl64 a - a\<bar> \<le> eps64 * B"
proof -
  assume "\<bar>a\<bar> \<le> B"
  then have "eps64 * \<bar>a\<bar> \<le> eps64 * B"
    by (intro mult_left_mono) (auto simp add: eps64_def)
  with fl64_error [of a] show ?thesis by linarith
qed

lemma fl64_nonneg: "0 \<le> a \<Longrightarrow> 0 \<le> fl64 a"
proof -
  assume a: "0 \<le> a"
  have "eps64 * a \<le> 1 * a" using a by (intro mult_right_mono) (auto simp add: eps64_def)
  with fl64_error [of a] a show ?thesis by (simp add: abs_le_iff)
qed


lemma fl64_half: "fl64 (a / 2) = fl64 a / 2"
proof (cases "a = 0")
  case True
  then show ?thesis by simp
next
  case False
  define q where "q = 2 powr real_of_int (binade a - 52)"
  have q0: "q \<noteq> 0" by (simp add: q_def)
  have "log 2 \<bar>a / 2\<bar> = log 2 \<bar>a\<bar> - 1"
    using False by (simp add: log_divide)
  then have b: "binade (a / 2) = binade a - 1" by (simp add: binade_def)
  have p: "2 powr real_of_int (binade (a / 2) - 52) = q / 2"
    unfolding b q_def by (simp add: powr_diff)
  have d: "a / 2 / (q / 2) = a / q" using q0 by simp
  have "fl64 (a / 2) = real_of_int (rne (a / q)) * (q / 2)"
    using False by (simp only: fl64_def p d) simp
  also have "\<dots> = fl64 a / 2"
    using False by (simp add: fl64_def q_def)
  finally show ?thesis .
qed

lemma fl32_zero [simp]: "fl32 0 = 0"
  by (simp add: fl32_def)

lemma fl32_eval:
  assumes "2 powr real_of_int e \<le> \<bar>a\<bar>" "\<bar>a\<bar> < 2 powr real_of_int (e + 1)"
  shows "fl32 a = real_of_int (rne (a / 2 powr real_of_int (e - 23))) * 2 powr real_of_int (e - 23)"
proof -
  have "0 < 2 powr real_of_int e" by simp
  then have "a \<noteq> 0" using assms(1) by auto
  then show ?thesis by (simp add: fl32_def binade_eqI [OF assms])
qed



lemma eps64_small: "0 < eps64" "eps64 \<le> 1 / 100"
  by (simp_all add: eps64_def)

lemma lerp_f64_error:
  assumes h: "\<bar>h\<bar> \<le> M" and k: "\<bar>k\<bar> \<le> M" and f: "\<bar>f\<bar> \<le> 2"
  shows "\<bar>fl64 (fl64 (h * fl64 (1 - f)) + fl64 (k * f)) - (h * (1 - f) + k * f)\<bar>
         \<le> 15 * (eps64 * M)"
proof -
  define E where "E = eps64 * M"
  have M0: "0 \<le> M" using h by linarith
  have E0: "0 \<le> E" using M0 eps64_small by (simp add: E_def)
  have EM: "E \<le> M / 100"
  proof -
    have "eps64 * M \<le> (1 / 100) * M" using eps64_small M0 by (intro mult_right_mono) auto
    then show ?thesis by (simp add: E_def)
  qed
  define a where "a = fl64 (1 - f)"
  have ea: "\<bar>a - (1 - f)\<bar> \<le> 3 * eps64"
    unfolding a_def using fl64_error_bound [of "1 - f" 3] f by (simp add: mult.commute)
  have a4: "\<bar>a\<bar> \<le> 4" using ea f eps64_small by linarith
  have ha: "\<bar>h * a\<bar> \<le> M * 4"
    unfolding abs_mult using h a4 by (intro mult_mono) auto
  define p where "p = fl64 (h * a)"
  have ep: "\<bar>p - h * a\<bar> \<le> 4 * E"
    unfolding p_def E_def using fl64_error_bound [OF ha] by (simp add: algebra_simps)
  have "\<bar>h * a - h * (1 - f)\<bar> = \<bar>h\<bar> * \<bar>a - (1 - f)\<bar>"
    by (simp add: abs_mult [symmetric] algebra_simps)
  also have "\<dots> \<le> M * (3 * eps64)"
    using h ea by (intro mult_mono) auto
  finally have eh: "\<bar>h * a - h * (1 - f)\<bar> \<le> 3 * E" by (simp add: E_def algebra_simps)
  have kf: "\<bar>k * f\<bar> \<le> M * 2"
    unfolding abs_mult using k f by (intro mult_mono) auto
  define q where "q = fl64 (k * f)"
  have eq: "\<bar>q - k * f\<bar> \<le> 2 * E"
    unfolding q_def E_def using fl64_error_bound [OF kf] by (simp add: algebra_simps)
  have h1f: "\<bar>h * (1 - f)\<bar> \<le> M * 3"
    unfolding abs_mult using h f by (intro mult_mono) auto
  have pq: "\<bar>p + q\<bar> \<le> 6 * M"
    using ep eh eq h1f kf EM by linarith
  define r where "r = fl64 (p + q)"
  have er: "\<bar>r - (p + q)\<bar> \<le> 6 * E"
    unfolding r_def E_def using fl64_error_bound [OF pq] by (simp add: algebra_simps)
  have "\<bar>r - (h * (1 - f) + k * f)\<bar> \<le> 15 * E"
    using er ep eh eq by linarith
  then show ?thesis by (simp add: r_def p_def q_def a_def E_def)
qed

lemma lerp_bound:
  fixes h k f M :: real
  assumes h: "\<bar>h\<bar> \<le> M" and k: "\<bar>k\<bar> \<le> M" and f: "\<bar>f\<bar> \<le> 2"
  shows "\<bar>h * (1 - f) + k * f\<bar> \<le> 5 * M"
proof -
  have "\<bar>h * (1 - f)\<bar> \<le> M * 3"
    unfolding abs_mult using h f by (intro mult_mono) auto
  moreover have "\<bar>k * f\<bar> \<le> M * 2"
    unfolding abs_mult using k f by (intro mult_mono) auto
  ultimately show ?thesis by linarith
qed

lemma lerp_diff:
  fixes h h' k k' f D :: real
  assumes h: "\<bar>h' - h\<bar> \<le> D" and k: "\<bar>k' - k\<bar> \<le> D" and f: "\<bar>f\<bar> \<le> 2"
  shows "\<bar>(h' * (1 - f) + k' * f) - (h * (1 - f) + k * f)\<bar> \<le> 5 * D"
proof -
  have "(h' * (1 - f) + k' * f) - (h * (1 - f) + k * f) = (h' - h) * (1 - f) + (k' - k) * f"
    by (simp add: algebra_simps)
  then show ?thesis using lerp_bound [OF h k f] by simp
qed

lemma bilinear_f64_error:
  assumes s: "\<bar>h00\<bar> \<le> M" "\<bar>h10\<bar> \<le> M" "\<bar>h01\<bar> \<le> M" "\<bar>h11\<bar> \<le> M"
    and fx: "\<bar>fx\<bar> \<le> 2" and fy: "\<bar>fy\<bar> \<le> 2"
  shows "\<bar>bilinear_f64 h00 h10 h01 h11 fx fy - bilinear h00 h10 h01 h11 fx fy\<bar>
         \<le> 180 * (eps64 * M)"
proof -
  define E where "E = eps64 * M"
  have M0: "0 \<le> M" using s(1) by linarith
  have EM: "E \<le> M / 100"
  proof -
    have "eps64 * M \<le> (1 / 100) * M" using eps64_small M0 by (intro mult_right_mono) auto
    then show ?thesis by (simp add: E_def)
  qed
  define g0 where "g0 = h00 * (1 - fx) + h10 * fx"
  define g1 where "g1 = h01 * (1 - fx) + h11 * fx"
  define k0 where "k0 = fl64 (fl64 (h00 * fl64 (1 - fx)) + fl64 (h10 * fx))"
  define k1 where "k1 = fl64 (fl64 (h01 * fl64 (1 - fx)) + fl64 (h11 * fx))"
  have d0: "\<bar>k0 - g0\<bar> \<le> 15 * E"
    unfolding k0_def g0_def E_def by (rule lerp_f64_error [OF s(1) s(2) fx])
  have d1: "\<bar>k1 - g1\<bar> \<le> 15 * E"
    unfolding k1_def g1_def E_def by (rule lerp_f64_error [OF s(3) s(4) fx])
  have b0: "\<bar>g0\<bar> \<le> 5 * M" unfolding g0_def by (rule lerp_bound [OF s(1) s(2) fx])
  have b1: "\<bar>g1\<bar> \<le> 5 * M" unfolding g1_def by (rule lerp_bound [OF s(3) s(4) fx])
  have c0: "\<bar>k0\<bar> \<le> 6 * M" using d0 b0 EM by linarith
  have c1: "\<bar>k1\<bar> \<le> 6 * M" using d1 b1 EM by linarith
  have "\<bar>fl64 (fl64 (k0 * fl64 (1 - fy)) + fl64 (k1 * fy)) - (k0 * (1 - fy) + k1 * fy)\<bar>
        \<le> 15 * (eps64 * (6 * M))"
    by (rule lerp_f64_error [OF c0 c1 fy])
  then have e1: "\<bar>fl64 (fl64 (k0 * fl64 (1 - fy)) + fl64 (k1 * fy)) - (k0 * (1 - fy) + k1 * fy)\<bar>
        \<le> 90 * E" by (simp add: E_def)
  have e2: "\<bar>(k0 * (1 - fy) + k1 * fy) - (g0 * (1 - fy) + g1 * fy)\<bar> \<le> 5 * (15 * E)"
    by (rule lerp_diff [OF d0 d1 fy])
  have "\<bar>fl64 (fl64 (k0 * fl64 (1 - fy)) + fl64 (k1 * fy)) - (g0 * (1 - fy) + g1 * fy)\<bar>
        \<le> 180 * E"
    using e1 e2 E_def M0 eps64_small by linarith
  then show ?thesis
    by (simp add: bilinear_f64_def bilinear_def Let_def k0_def k1_def g0_def g1_def E_def)
qed

lemma fl64_one: "fl64 1 = 1"
  using fl64_eval [of 0 1] rne_of_int [of "2 ^ 52"] by (simp add: powr_neg_numeral)

lemma bilinear_f64_corner:
  assumes "fl64 h00 = h00"
  shows "bilinear_f64 h00 h10 h01 h11 0 0 = h00"
  using assms by (simp add: bilinear_f64_def Let_def fl64_one)

section \<open>Input axes stay in range\<close>

lemma axes_in_range_handle_event:
  "axes_in_range m \<Longrightarrow> axes_in_range (handle_event m e)"
proof (cases e)
  case Update
  assume "axes_in_range m"
  then show ?thesis
    unfolding Update
    by (simp add: axes_in_range_def getPitch_def getRoll_def im_update_def
        keyboard_pitch_def keyboard_roll_def Let_def)
qed (simp_all add: axes_in_range_def getPitch_def getRoll_def handleKeyDown_def
       handleKeyUp_def touchstart_def touchmove_def touchend_def touchcancel_def)

lemma axes_in_range_foldl:
  "axes_in_range m \<Longrightarrow> axes_in_range (foldl handle_event m es)"
  by (induction es arbitrary: m) (simp_all add: axes_in_range_handle_event)

lemma axes_in_range_new: "axes_in_range InputManager_new"
  by (simp add: axes_in_range_def InputManager_new_def getPitch_def getRoll_def)

text \<open>
  C9. After any sequence of key, touch and update events starting from a fresh
  InputManager, both axes lie in \<open>[-1, 1]\<close>. Without an active touch, one update moves
  the pitch axis by 0.05 towards 1 while up is held (capped at 1), by 0.05 towards -1
  while down (and not up) is held (capped at -1), and multiplies it by 0.9 when neither is
  held; the roll axis does the same with left (towards -1) and right (towards 1). With an
  active touch, the update replaces both axes by the drag displacement divided by 100 and
  clamped to \<open>[-1, 1]\<close> (pitch with the sign flipped), so that a drag of 100 pixels or more
  gives full deflection.
\<close>

theorem input_axes_in_range:
  "axes_in_range (run_events es)
   \<and> (\<not> touchActive m \<longrightarrow>
        (keys_up m \<longrightarrow> getPitch (im_update m) = min (getPitch m + 0.05) 1)
      \<and> (\<not> keys_up m \<and> keys_down m \<longrightarrow> getPitch (im_update m) = max (getPitch m - 0.05) (-1))
      \<and> (\<not> keys_up m \<and> \<not> keys_down m \<longrightarrow> getPitch (im_update m) = getPitch m * 0.9)
      \<and> (keys_left m \<longrightarrow> getRoll (im_update m) = max (getRoll m - 0.05) (-1))
      \<and> (\<not> keys_left m \<and> keys_right m \<longrightarrow> getRoll (im_update m) = min (getRoll m + 0.05) 1)
      \<and> (\<not> keys_left m \<and> \<not> keys_right m \<longrightarrow> getRoll (im_update m) = getRoll m * 0.9))
   \<and> (touchActive m \<longrightarrow>
        getPitch (im_update m)
          = max (-1) (min 1 (- (touchCurrentY m - touchStartY m) / 100))
      \<and> getRoll (im_update m)
          = max (-1) (min 1 ((touchCurrentX m - touchStartX m) / 100))
      \<and> (touchCurrentY m - touchStartY m \<le> - 100 \<longrightarrow> getPitch (im_update m) = 1)
      \<and> (touchCurrentY m - touchStartY m \<ge> 100 \<longrightarrow> getPitch (im_update m) = - 1)
      \<and> (touchCurrentX m - touchStartX m \<ge> 100 \<longrightarrow> getRoll (im_update m) = 1)
      \<and> (touchCurrentX m - touchStartX m \<le> - 100 \<longrightarrow> getRoll (im_update m) = - 1))"
proof -
  have "axes_in_range (run_events es)"
    unfolding run_events_def by (rule axes_in_range_foldl [OF axes_in_range_new])
  moreover have "\<not> touchActive m \<longrightarrow>
        (keys_up m \<longrightarrow> getPitch (im_update m) = min (getPitch m + 0.05) 1)
      \<and> (\<not> keys_up m \<and> keys_down m \<longrightarrow> getPitch (im_update m) = max (getPitch m - 0.05) (-1))
      \<and> (\<not> keys_up m \<and> \<not> keys_down m \<longrightarrow> getPitch (im_update m) = getPitch m * 0.9)
      \<and> (keys_left m \<longrightarrow> getRoll (im_update m) = max (getRoll m - 0.05) (-1))
      \<and> (\<not> keys_left m \<and> keys_right m \<longrightarrow> getRoll (im_update m) = min (getRoll m + 0.05) 1)
      \<and> (\<not> keys_left m \<and> \<not> keys_right m \<longrightarrow> getRoll (im_update m) = getRoll m * 0.9)"
    by (simp add: getPitch_def getRoll_def im_update_def keyboard_pitch_def
        keyboard_roll_def Let_def)
  moreover have "touchActive m \<longrightarrow>
        getPitch (im_update m)
          = max (-1) (min 1 (- (touchCurrentY m - touchStartY m) / 100))
      \<and> getRoll (im_update m)
          = max (-1) (min 1 ((touchCurrentX m - touchStartX m) / 100))
      \<and> (touchCurrentY m - touchStartY m \<le> - 100 \<longrightarrow> getPitch (im_update m) = 1)
      \<and> (touchCurrentY m - touchStartY m \<ge> 100 \<longrightarrow> getPitch (im_update m) = - 1)
      \<and> (touchCurrentX m - touchStartX m \<ge> 100 \<longrightarrow> getRoll (im_update m) = 1)
      \<and> (touchCurrentX m - touchStartX m \<le> - 100 \<longrightarrow> getRoll (im_update m) = - 1)"
    by (simp add: getPitch_def getRoll_def im_update_def Let_def diff_divide_distrib)
  ultimately show ?thesis by blast
qed

theorem input_axes_in_range_witness:
  "axes_in_range (run_events [KeyDown ''ArrowUp'', Update, TouchStart 10 10,
       TouchMove 300 (-200), Update])
   \<and> keys_up (run_events [KeyDown ''ArrowUp'', Update])
   \<and> \<not> touchActive (run_events [KeyDown ''ArrowUp'', Update])
   \<and> getPitch (run_events [KeyDown ''ArrowUp'', Update]) = 0.05
   \<and> getPitch (im_update (run_events [KeyDown ''ArrowUp'', Update])) = 0.1
   \<and> touchActive (run_events [TouchStart 10 10, TouchMove 300 (-200)])
   \<and> getPitch (im_update (run_events [TouchStart 10 10, TouchMove 300 (-200)])) = 1"
  using input_axes_in_range
    [of "[KeyDown ''ArrowUp'', Update, TouchStart 10 10, TouchMove 300 (-200), Update]"
        "run_events [KeyDown ''ArrowUp'', Update]"]
    input_axes_in_range
    [of "[]" "run_events [TouchStart 10 10, TouchMove 300 (-200)]"]
  by (simp add: run_events_def InputManager_new_def handleKeyDown_def im_update_def
      keyboard_pitch_def keyboard_roll_def touchstart_def touchmove_def getPitch_def
      getRoll_def Let_def)

section \<open>Sampling in exact arithmetic\<close>

lemma idx_in_range:
  fixes W H x y :: int
  assumes "0 \<le> x" "x < W" "0 \<le> y" "y < H"
  shows "0 \<le> y * W + x \<and> y * W + x < W * H"
proof -
  have "y * W + x < y * W + W" using assms by simp
  also have "\<dots> = (y + 1) * W" by (simp add: algebra_simps)
  also have "\<dots> \<le> H * W" using assms by (intro mult_right_mono) auto
  finally have "y * W + x < W * H" by (simp add: mult.commute)
  moreover have "0 \<le> y * W" using assms by simp
  ultimately show ?thesis using assms by simp
qed

lemma floor_scaled_range:
  fixes u :: real and W :: int
  assumes "0 \<le> u" "u \<le> 1" "1 \<le> W"
  shows "0 \<le> \<lfloor>u * real_of_int (W - 1)\<rfloor> \<and> \<lfloor>u * real_of_int (W - 1)\<rfloor> \<le> W - 1"
proof -
  have a: "0 \<le> u * real_of_int (W - 1)" using assms by simp
  have "u * real_of_int (W - 1) \<le> 1 * real_of_int (W - 1)"
    using assms by (intro mult_right_mono) auto
  then have b: "u * real_of_int (W - 1) \<le> real_of_int (W - 1)" by simp
  have "\<lfloor>u * real_of_int (W - 1)\<rfloor> \<le> \<lfloor>real_of_int (W - 1)\<rfloor>"
    using b by (rule floor_mono)
  then show ?thesis using a by simp
qed

lemma heightData_at_in_range:
  "0 \<le> i \<Longrightarrow> i < int (length d) \<Longrightarrow> heightData_at d i = Inr (d ! nat i)"
  by (simp add: heightData_at_def)

lemma sampleHeightmap_in_field:
  assumes loaded: "field_loaded t d"
    and u: "0 \<le> u" "u \<le> 1" and v: "0 \<le> v" "v \<le> 1"
  defines "W \<equiv> heightDataWidth t" and "H \<equiv> heightDataHeight t"
  defines "px \<equiv> u * real_of_int (W - 1)" and "py \<equiv> v * real_of_int (H - 1)"
  defines "x0 \<equiv> \<lfloor>px\<rfloor>" and "y0 \<equiv> \<lfloor>py\<rfloor>"
  defines "x1 \<equiv> min (x0 + 1) (W - 1)" and "y1 \<equiv> min (y0 + 1) (H - 1)"
  shows "0 \<le> x0 \<and> x0 \<le> x1 \<and> x1 < W \<and> 0 \<le> y0 \<and> y0 \<le> y1 \<and> y1 < H"
    and "sampleHeightmap t u v =
          Inr (bilinear (d ! nat (y0 * W + x0)) (d ! nat (y0 * W + x1))
                 (d ! nat (y1 * W + x0)) (d ! nat (y1 * W + x1))
                 (px - real_of_int x0) (py - real_of_int y0))"
proof -
  have WH: "1 \<le> W" "1 \<le> H" "int (length d) = W * H" and hd: "heightData t = Some d"
    using loaded by (simp_all add: field_loaded_def W_def H_def)
  have xr: "0 \<le> x0 \<and> x0 \<le> W - 1"
    unfolding x0_def px_def using u WH(1) by (rule floor_scaled_range)
  have yr: "0 \<le> y0 \<and> y0 \<le> H - 1"
    unfolding y0_def py_def using v WH(2) by (rule floor_scaled_range)
  show r: "0 \<le> x0 \<and> x0 \<le> x1 \<and> x1 < W \<and> 0 \<le> y0 \<and> y0 \<le> y1 \<and> y1 < H"
    using xr yr WH(1,2) unfolding x1_def y1_def by linarith
  have i00: "heightData_at d (y0 * W + x0) = Inr (d ! nat (y0 * W + x0))"
    using idx_in_range [of x0 W y0 H] r WH(3) by (intro heightData_at_in_range) auto
  have i10: "heightData_at d (y0 * W + x1) = Inr (d ! nat (y0 * W + x1))"
    using idx_in_range [of x1 W y0 H] r WH(3) by (intro heightData_at_in_range) auto
  have i01: "heightData_at d (y1 * W + x0) = Inr (d ! nat (y1 * W + x0))"
    using idx_in_range [of x0 W y1 H] r WH(3) by (intro heightData_at_in_range) auto
  have i11: "heightData_at d (y1 * W + x1) = Inr (d ! nat (y1 * W + x1))"
    using idx_in_range [of x1 W y1 H] r WH(3) by (intro heightData_at_in_range) auto
  have cu: "max 0 (min 1 u) = u" and cv: "max 0 (min 1 v) = v"
    using u v by simp_all
  show "sampleHeightmap t u v =
          Inr (bilinear (d ! nat (y0 * W + x0)) (d ! nat (y0 * W + x1))
                 (d ! nat (y1 * W + x0)) (d ! nat (y1 * W + x1))
                 (px - real_of_int x0) (py - real_of_int y0))"
    unfolding sampleHeightmap_def Let_def cu cv hd
    using i00 i10 i01 i11
    by (simp add: W_def H_def px_def py_def x0_def y0_def x1_def y1_def)
qed

lemma bilinear_const: "bilinear c c c c fx fy = c"
  by (simp add: bilinear_def Let_def algebra_simps)

lemma sampleHeightmap_const:
  assumes loaded: "field_loaded t d"
    and u: "0 \<le> u" "u \<le> 1" and v: "0 \<le> v" "v \<le> 1"
    and const: "\<forall>h \<in> set d. h = c"
  shows "sampleHeightmap t u v = Inr c"
proof -
  let ?W = "heightDataWidth t" and ?H = "heightDataHeight t"
  let ?x0 = "\<lfloor>u * real_of_int (?W - 1)\<rfloor>" and ?y0 = "\<lfloor>v * real_of_int (?H - 1)\<rfloor>"
  let ?x1 = "min (?x0 + 1) (?W - 1)" and ?y1 = "min (?y0 + 1) (?H - 1)"
  note r = sampleHeightmap_in_field [OF loaded u v]
  have len: "int (length d) = ?W * ?H" using loaded by (simp add: field_loaded_def)
  have at: "d ! nat (y * ?W + x) = c" if "0 \<le> x" "x < ?W" "0 \<le> y" "y < ?H" for x y
  proof -
    have "nat (y * ?W + x) < length d"
      using idx_in_range [OF that] len by auto
    then show ?thesis using const by simp
  qed
  have x0: "0 \<le> ?x0" "?x0 < ?W" and x1: "0 \<le> ?x1" "?x1 < ?W"
    and y0: "0 \<le> ?y0" "?y0 < ?H" and y1: "0 \<le> ?y1" "?y1 < ?H"
    using r(1) by linarith+
  have "d ! nat (?y0 * ?W + ?x0) = c" "d ! nat (?y0 * ?W + ?x1) = c"
    "d ! nat (?y1 * ?W + ?x0) = c" "d ! nat (?y1 * ?W + ?x1) = c"
    using at [OF x0 y0] at [OF x1 y0] at [OF x0 y1] at [OF x1 y1] by simp_all
  then show ?thesis using r(2) by (simp add: bilinear_const)
qed

section \<open>Sampling and height queries in double arithmetic\<close>

lemma fl64_scaled_range:
  fixes u :: real and W :: int
  assumes "0 \<le> u" "u \<le> 1" "1 \<le> W" "W \<le> 2 ^ 53"
  shows "0 \<le> \<lfloor>fl64 (u * real_of_int (W - 1))\<rfloor> \<and> \<lfloor>fl64 (u * real_of_int (W - 1))\<rfloor> \<le> W - 1"
proof -
  let ?t = "u * real_of_int (W - 1)"
  have t0: "0 \<le> ?t" using assms by simp
  have "?t \<le> 1 * real_of_int (W - 1)" using assms by (intro mult_right_mono) auto
  then have t1: "?t \<le> real_of_int (W - 1)" by simp
  have w: "real_of_int (W - 1) < 2 ^ 53"
  proof -
    have "W - 1 < 2 ^ 53" using assms(4) by simp
    then have "real_of_int (W - 1) < real_of_int (2 ^ 53)" by (simp only: of_int_less_iff)
    then show ?thesis by simp
  qed
  have "eps64 * ?t \<le> eps64 * real_of_int (W - 1)"
    using t1 by (intro mult_left_mono) (auto simp add: eps64_def)
  also have "\<dots> < 1" using w by (simp add: eps64_def)
  finally have e: "eps64 * ?t < 1" .
  have "fl64 ?t \<le> ?t + eps64 * ?t" using fl64_error [of ?t] t0 by (simp add: abs_le_iff)
  then have "fl64 ?t < real_of_int W" using e t1 by simp
  then have "\<lfloor>fl64 ?t\<rfloor> < W" by (simp add: floor_less_iff)
  moreover have "0 \<le> \<lfloor>fl64 ?t\<rfloor>" using fl64_nonneg [OF t0] by simp
  ultimately show ?thesis by simp
qed

lemma fl64_frac_range: "0 \<le> fl64 (p - real_of_int \<lfloor>p\<rfloor>) \<and> \<bar>fl64 (p - real_of_int \<lfloor>p\<rfloor>)\<bar> \<le> 2"
proof -
  let ?g = "p - real_of_int \<lfloor>p\<rfloor>"
  have g: "0 \<le> ?g" "?g < 1" by linarith+
  have "\<bar>fl64 ?g - ?g\<bar> \<le> eps64 * 1" using g by (intro fl64_error_bound) simp
  then show ?thesis using g fl64_nonneg [OF g(1)] eps64_small by linarith
qed

lemma sampleHeightmap_f64_in_field:
  assumes loaded: "field_loaded t d"
    and big: "heightDataWidth t \<le> 2 ^ 53" "heightDataHeight t \<le> 2 ^ 53"
    and u: "0 \<le> u" "u \<le> 1" and v: "0 \<le> v" "v \<le> 1"
  defines "W \<equiv> heightDataWidth t" and "H \<equiv> heightDataHeight t"
  defines "px \<equiv> fl64 (u * real_of_int (W - 1))" and "py \<equiv> fl64 (v * real_of_int (H - 1))"
  defines "x0 \<equiv> \<lfloor>px\<rfloor>" and "y0 \<equiv> \<lfloor>py\<rfloor>"
  defines "x1 \<equiv> min (x0 + 1) (W - 1)" and "y1 \<equiv> min (y0 + 1) (H - 1)"
  shows "0 \<le> x0 \<and> x0 \<le> x1 \<and> x1 < W \<and> 0 \<le> y0 \<and> y0 \<le> y1 \<and> y1 < H"
    and "sampleHeightmap_f64 t u v =
          Inr (bilinear_f64 (d ! nat (y0 * W + x0)) (d ! nat (y0 * W + x1))
                 (d ! nat (y1 * W + x0)) (d ! nat (y1 * W + x1))
                 (fl64 (px - real_of_int x0)) (fl64 (py - real_of_int y0)))"
    and "nat (y0 * W + x0) < length d \<and> nat (y0 * W + x1) < length d
         \<and> nat (y1 * W + x0) < length d \<and> nat (y1 * W + x1) < length d"
proof -
  have WH: "1 \<le> W" "1 \<le> H" "int (length d) = W * H" and hd: "heightData t = Some d"
    using loaded by (simp_all add: field_loaded_def W_def H_def)
  have xr: "0 \<le> x0 \<and> x0 \<le> W - 1"
    unfolding x0_def px_def using u WH(1) big(1) [folded W_def] by (rule fl64_scaled_range)
  have yr: "0 \<le> y0 \<and> y0 \<le> H - 1"
    unfolding y0_def py_def using v WH(2) big(2) [folded H_def] by (rule fl64_scaled_range)
  show r: "0 \<le> x0 \<and> x0 \<le> x1 \<and> x1 < W \<and> 0 \<le> y0 \<and> y0 \<le> y1 \<and> y1 < H"
    using xr yr WH(1,2) unfolding x1_def y1_def by linarith
  have x0r: "0 \<le> x0" "x0 < W" and x1r: "0 \<le> x1" "x1 < W"
    and y0r: "0 \<le> y0" "y0 < H" and y1r: "0 \<le> y1" "y1 < H"
    using r by linarith+
  note i00 = idx_in_range [OF x0r y0r] and i10 = idx_in_range [OF x1r y0r]
    and i01 = idx_in_range [OF x0r y1r] and i11 = idx_in_range [OF x1r y1r]
  show "nat (y0 * W + x0) < length d \<and> nat (y0 * W + x1) < length d
         \<and> nat (y1 * W + x0) < length d \<and> nat (y1 * W + x1) < length d"
    using i00 i10 i01 i11 WH(3) by auto
  have l00: "heightData_at d (y0 * W + x0) = Inr (d ! nat (y0 * W + x0))"
    using i00 WH(3) by (intro heightData_at_in_range) auto
  have l10: "heightData_at d (y0 * W + x1) = Inr (d ! nat (y0 * W + x1))"
    using i10 WH(3) by (intro heightData_at_in_range) auto
  have l01: "heightData_at d (y1 * W + x0) = Inr (d ! nat (y1 * W + x0))"
    using i01 WH(3) by (intro heightData_at_in_range) auto
  have l11: "heightData_at d (y1 * W + x1) = Inr (d ! nat (y1 * W + x1))"
    using i11 WH(3) by (intro heightData_at_in_range) auto
  have cu: "max 0 (min 1 u) = u" and cv: "max 0 (min 1 v) = v"
    using u v by simp_all
  show "sampleHeightmap_f64 t u v =
          Inr (bilinear_f64 (d ! nat (y0 * W + x0)) (d ! nat (y0 * W + x1))
                 (d ! nat (y1 * W + x0)) (d ! nat (y1 * W + x1))
                 (fl64 (px - real_of_int x0)) (fl64 (py - real_of_int y0)))"
    unfolding sampleHeightmap_f64_def Let_def cu cv hd
    using l00 l10 l01 l11
    by (simp add: W_def H_def px_def py_def x0_def y0_def x1_def y1_def)
qed

lemma sampleHeightmap_f64_close:
  assumes loaded: "field_loaded t d"
    and big: "heightDataWidth t \<le> 2 ^ 53" "heightDataHeight t \<le> 2 ^ 53"
    and u: "0 \<le> u" "u \<le> 1" and v: "0 \<le> v" "v \<le> 1"
    and M: "\<forall>h \<in> set d. \<bar>h\<bar> \<le> M"
  defines "W \<equiv> heightDataWidth t" and "H \<equiv> heightDataHeight t"
  defines "px \<equiv> fl64 (u * real_of_int (W - 1))" and "py \<equiv> fl64 (v * real_of_int (H - 1))"
  defines "x0 \<equiv> \<lfloor>px\<rfloor>" and "y0 \<equiv> \<lfloor>py\<rfloor>"
  defines "x1 \<equiv> min (x0 + 1) (W - 1)" and "y1 \<equiv> min (y0 + 1) (H - 1)"
  obtains r where "sampleHeightmap_f64 t u v = Inr r"
    "\<bar>r - bilinear (d ! nat (y0 * W + x0)) (d ! nat (y0 * W + x1))
                 (d ! nat (y1 * W + x0)) (d ! nat (y1 * W + x1))
                 (fl64 (px - real_of_int x0)) (fl64 (py - real_of_int y0))\<bar>
      \<le> 180 * (eps64 * M)"
proof -
  note f = sampleHeightmap_f64_in_field [OF loaded big u v,
      folded W_def H_def, folded px_def py_def, folded x0_def y0_def, folded x1_def y1_def]
  have b: "\<bar>d ! k\<bar> \<le> M" if "k < length d" for k
    using M that by simp
  have fx: "\<bar>fl64 (px - real_of_int x0)\<bar> \<le> 2" and fy: "\<bar>fl64 (py - real_of_int y0)\<bar> \<le> 2"
    unfolding x0_def y0_def using fl64_frac_range by blast+
  from f(3) have s: "\<bar>d ! nat (y0 * W + x0)\<bar> \<le> M" "\<bar>d ! nat (y0 * W + x1)\<bar> \<le> M"
    "\<bar>d ! nat (y1 * W + x0)\<bar> \<le> M" "\<bar>d ! nat (y1 * W + x1)\<bar> \<le> M"
    by (simp_all add: b)
  show ?thesis
    using that [OF f(2)] bilinear_f64_error [OF s fx fy] by blast
qed



lemma fl64_10: "fl64 10 = 10"
  using fl64_eval [of 3 10] rne_of_int [of "10 * 2 ^ 49"] by (simp add: powr_neg_numeral)

lemma fl64_20: "fl64 20 = 20"
  using fl64_eval [of 4 20] rne_of_int [of "20 * 2 ^ 48"] by (simp add: powr_neg_numeral)

lemma fl64_30: "fl64 30 = 30"
  using fl64_eval [of 4 30] rne_of_int [of "30 * 2 ^ 48"] by (simp add: powr_neg_numeral)

lemma fl64_40: "fl64 40 = 40"
  using fl64_eval [of 5 40] rne_of_int [of "40 * 2 ^ 47"] by (simp add: powr_neg_numeral)

lemma fl64_1000: "fl64 1000 = 1000"
  using fl64_eval [of 9 1000] rne_of_int [of "1000 * 2 ^ 43"] by (simp add: powr_neg_numeral)

lemma fl64_2000: "fl64 2000 = 2000"
  using fl64_half [of 2000] by (simp add: fl64_1000)





lemma fl64_one_half: "fl64 (1 / 2) = 1 / 2"
  using fl64_half [of 1] by (simp add: fl64_one)


lemma fl64_u0: "fl64 (6052837899185947 / 2 ^ 58) = 6052837899185947 / 2 ^ 58"
  using fl64_eval [of "- 6" "6052837899185947 / 2 ^ 58"] rne_of_int [of 6052837899185947]
  by (simp add: powr_neg_numeral)

lemma fl64_one_minus_u0:
  "fl64 (1 - 6052837899185947 / 2 ^ 58) = 8818048070391431 / 2 ^ 53"
  using fl64_eval [of "- 1" "1 - 6052837899185947 / 2 ^ 58"]
  by (simp add: powr_neg_numeral rne_def Let_def)

lemma fl64_100_a: "fl64 (100 * (8818048070391431 / 2 ^ 53)) = 6889100054993305 / 2 ^ 46"
  using fl64_eval [of 6 "100 * (8818048070391431 / 2 ^ 53)"]
  by (simp add: powr_neg_numeral rne_def Let_def)

lemma fl64_100_u0: "fl64 (100 * (6052837899185947 / 2 ^ 58)) = 4728779608739021 / 2 ^ 51"
  using fl64_eval [of 1 "100 * (6052837899185947 / 2 ^ 58)"]
  by (simp add: powr_neg_numeral rne_def Let_def)

lemma fl64_row_sum:
  "fl64 (6889100054993305 / 2 ^ 46 + 4728779608739021 / 2 ^ 51) = 7036874417766399 / 2 ^ 46"
  using fl64_eval [of 6 "6889100054993305 / 2 ^ 46 + 4728779608739021 / 2 ^ 51"]
  by (simp add: powr_neg_numeral rne_def Let_def)

lemma fl64_row: "fl64 (7036874417766399 / 2 ^ 46) = 7036874417766399 / 2 ^ 46"
  using fl64_eval [of 6 "7036874417766399 / 2 ^ 46"] rne_of_int [of 7036874417766399]
  by (simp add: powr_neg_numeral)

lemma fl64_100: "fl64 100 = 100"
  using fl64_eval [of 6 100] rne_of_int [of "100 * 2 ^ 46"] by (simp add: powr_neg_numeral)

lemma fl32_100: "fl32 100 = 100"
  using fl32_eval [of 6 100] rne_of_int [of "100 * 2 ^ 17"] by (simp add: powr_neg_numeral)

lemma fl32_2000: "fl32 2000 = 2000"
  using fl32_eval [of 10 2000] rne_of_int [of "2000 * 2 ^ 13"] by (simp add: powr_neg_numeral)

lemma loadHeightmap_uniform:
  assumes w: "1 \<le> w" and h: "1 \<le> h"
    and red: "\<forall>i < w * h. pixels ! (i * 4) = p"
  obtains d where "field_loaded (loadHeightmap w h pixels t) d"
    "\<forall>s \<in> set d. s = fl32 (fl64 (minHeight t
        + fl64 (fl64 (real p / 255) * fl64 (maxHeight t - minHeight t))))"
proof -
  define f where "f = (\<lambda>i. fl32 (fl64 (minHeight t
      + fl64 (fl64 (real (pixels ! (i * 4)) / 255) * fl64 (maxHeight t - minHeight t)))))"
  define d where "d = map f [0..<w * h]"
  have "heightData (loadHeightmap w h pixels t) = Some d"
    by (simp add: loadHeightmap_def d_def f_def)
  then have l: "field_loaded (loadHeightmap w h pixels t) d"
    using w h by (simp add: field_loaded_def loadHeightmap_def d_def)
  have "f i = fl32 (fl64 (minHeight t
        + fl64 (fl64 (real p / 255) * fl64 (maxHeight t - minHeight t))))"
    if "i < w * h" for i
    using red that by (simp add: f_def)
  then have "\<forall>s \<in> set d. s = fl32 (fl64 (minHeight t
        + fl64 (fl64 (real p / 255) * fl64 (maxHeight t - minHeight t))))"
    by (auto simp add: d_def)
  with l show ?thesis by (rule that)
qed

lemma loadHeightmap_flat:
  assumes w: "1 \<le> w" and h: "1 \<le> h" and len: "length pixels = 4 * w * h"
    and red: "\<forall>i < w * h. pixels ! (i * 4) = 255"
    and lo: "minHeight t = 0"
    and hi: "fl64 (maxHeight t) = maxHeight t" "fl32 (maxHeight t) = maxHeight t"
  obtains d where "field_loaded (loadHeightmap w h pixels t) d"
    "\<forall>s \<in> set d. s = maxHeight t"
proof -
  have "fl32 (fl64 (minHeight t
        + fl64 (fl64 (real (255::nat) / 255) * fl64 (maxHeight t - minHeight t))))
      = maxHeight t"
    by (simp add: lo hi fl64_one)
  then show ?thesis
    using loadHeightmap_uniform [OF w h red, of t] that by metis
qed

lemma bilinear_f64_100:
  "bilinear_f64 100 100 100 100 (6052837899185947 / 2 ^ 58) 0 = 100 - 1 / 2 ^ 46"
proof -
  have r: "fl64 (fl64 (100 * fl64 (1 - 6052837899185947 / 2 ^ 58))
             + fl64 (100 * (6052837899185947 / 2 ^ 58))) = 7036874417766399 / 2 ^ 46"
    by (simp only: fl64_one_minus_u0 fl64_100_a fl64_100_u0 fl64_row_sum)
  have "bilinear_f64 100 100 100 100 (6052837899185947 / 2 ^ 58) 0
        = 7036874417766399 / 2 ^ 46"
    unfolding bilinear_f64_def Let_def r
    by (simp only: diff_zero fl64_one mult_1_right fl64_row mult_zero_right fl64_zero
        add_0_right)
  then show ?thesis by simp
qed

lemma loadHeightmap_level:
  assumes w: "1 \<le> w" and h: "1 \<le> h" and lvl: "maxHeight t = minHeight t"
    and dbl: "fl64 (minHeight t) = minHeight t" "fl32 (minHeight t) = minHeight t"
  obtains d where "field_loaded (loadHeightmap w h pixels t) d"
    "\<forall>s \<in> set d. s = minHeight t"
proof -
  define f where "f = (\<lambda>i. fl32 (fl64 (minHeight t
      + fl64 (fl64 (real (pixels ! (i * 4)) / 255) * fl64 (maxHeight t - minHeight t)))))"
  define d where "d = map f [0..<w * h]"
  have "heightData (loadHeightmap w h pixels t) = Some d"
    by (simp add: loadHeightmap_def d_def f_def)
  then have l: "field_loaded (loadHeightmap w h pixels t) d"
    using w h by (simp add: field_loaded_def loadHeightmap_def d_def)
  have "f i = minHeight t" for i by (simp add: f_def lvl dbl)
  then have "\<forall>s \<in> set d. s = minHeight t" by (auto simp add: d_def)
  with l show ?thesis by (rule that)
qed

lemma sampleHeightmap_f64_close_ex:
  assumes "field_loaded t d"
    and "heightDataWidth t \<le> 2 ^ 53" and "heightDataHeight t \<le> 2 ^ 53"
    and "0 \<le> u" and "u \<le> 1" and "0 \<le> v" and "v \<le> 1"
    and "\<forall>h \<in> set d. \<bar>h\<bar> \<le> M"
  shows "\<exists>r. sampleHeightmap_f64 t u v = Inr r \<and>
           \<bar>r - bilinear
              (d ! nat (\<lfloor>fl64 (v * real_of_int (heightDataHeight t - 1))\<rfloor> * heightDataWidth t
                   + \<lfloor>fl64 (u * real_of_int (heightDataWidth t - 1))\<rfloor>))
              (d ! nat (\<lfloor>fl64 (v * real_of_int (heightDataHeight t - 1))\<rfloor> * heightDataWidth t
                   + min (\<lfloor>fl64 (u * real_of_int (heightDataWidth t - 1))\<rfloor> + 1)
                       (heightDataWidth t - 1)))
              (d ! nat (min (\<lfloor>fl64 (v * real_of_int (heightDataHeight t - 1))\<rfloor> + 1)
                       (heightDataHeight t - 1) * heightDataWidth t
                   + \<lfloor>fl64 (u * real_of_int (heightDataWidth t - 1))\<rfloor>))
              (d ! nat (min (\<lfloor>fl64 (v * real_of_int (heightDataHeight t - 1))\<rfloor> + 1)
                       (heightDataHeight t - 1) * heightDataWidth t
                   + min (\<lfloor>fl64 (u * real_of_int (heightDataWidth t - 1))\<rfloor> + 1)
                       (heightDataWidth t - 1)))
              (fl64 (fl64 (u * real_of_int (heightDataWidth t - 1))
                 - real_of_int \<lfloor>fl64 (u * real_of_int (heightDataWidth t - 1))\<rfloor>))
              (fl64 (fl64 (v * real_of_int (heightDataHeight t - 1))
                 - real_of_int \<lfloor>fl64 (v * real_of_int (heightDataHeight t - 1))\<rfloor>))\<bar>
           \<le> 180 * (eps64 * M)"
  using sampleHeightmap_f64_close [OF assms] by blast

text \<open>
  C4, as amended. For every \<open>u\<close>, \<open>v\<close> in \<open>[0, 1]\<close> the height query of a loaded
  elevation field reads the four nearest grid samples, the \<open>+1\<close> neighbour index
  being capped at the last column and row (it never wraps), and returns the
  bilinear combination \<open>h0 = h00 * (1 - fx) + h10 * fx\<close>,
  \<open>h1 = h01 * (1 - fx) + h11 * fx\<close>, \<open>result = h0 * (1 - fy) + h1 * fy\<close> evaluated
  in double arithmetic, every operation rounded to the nearest double; that
  value lies within \<open>180 * eps64 * M\<close> of the exact combination when the samples
  are bounded by \<open>M\<close> in absolute value. At the four corners of a \<open>2 \<times> 2\<close> field of
  doubles the query returns the corner sample exactly; at its midpoint it
  returns the arithmetic mean of the four corners within \<open>180 * eps64 * M\<close>; on a
  constant field of height \<open>100\<close> it returns a value within \<open>180 * eps64 * 100\<close> of
  \<open>100\<close> (less than \<open>1 / 10 ^ 11\<close>), which is not always \<open>100\<close> itself.
\<close>

theorem sampleHeightmap_f64_bilinear:
  assumes "field_loaded t d"
    and "heightDataWidth t \<le> 2 ^ 53" and "heightDataHeight t \<le> 2 ^ 53"
    and "0 \<le> u" and "u \<le> 1" and "0 \<le> v" and "v \<le> 1"
  shows "(let W = heightDataWidth t; H = heightDataHeight t;
              px = fl64 (u * real_of_int (W - 1)); py = fl64 (v * real_of_int (H - 1));
              x0 = \<lfloor>px\<rfloor>; y0 = \<lfloor>py\<rfloor>;
              x1 = min (x0 + 1) (W - 1); y1 = min (y0 + 1) (H - 1);
              fx = fl64 (px - real_of_int x0); fy = fl64 (py - real_of_int y0);
              h00 = d ! nat (y0 * W + x0); h10 = d ! nat (y0 * W + x1);
              h01 = d ! nat (y1 * W + x0); h11 = d ! nat (y1 * W + x1);
              h0 = fl64 (fl64 (h00 * fl64 (1 - fx)) + fl64 (h10 * fx));
              h1 = fl64 (fl64 (h01 * fl64 (1 - fx)) + fl64 (h11 * fx))
          in 0 \<le> x0 \<and> x0 \<le> x1 \<and> x1 < W \<and> 0 \<le> y0 \<and> y0 \<le> y1 \<and> y1 < H
             \<and> sampleHeightmap_f64 t u v = Inr (fl64 (fl64 (h0 * fl64 (1 - fy)) + fl64 (h1 * fy)))
             \<and> ((\<forall>h \<in> set d. \<bar>h\<bar> \<le> M) \<longrightarrow>
                  \<bar>fl64 (fl64 (h0 * fl64 (1 - fy)) + fl64 (h1 * fy))
                    - ((h00 * (1 - fx) + h10 * fx) * (1 - fy)
                       + (h01 * (1 - fx) + h11 * fx) * fy)\<bar> \<le> 180 * (eps64 * M)))
    \<and> (heightDataWidth t = 2 \<and> heightDataHeight t = 2 \<and> (\<forall>h \<in> set d. fl64 h = h)
          \<longrightarrow> sampleHeightmap_f64 t 0 0 = Inr (d ! 0) \<and> sampleHeightmap_f64 t 1 0 = Inr (d ! 1)
            \<and> sampleHeightmap_f64 t 0 1 = Inr (d ! 2) \<and> sampleHeightmap_f64 t 1 1 = Inr (d ! 3))
    \<and> (heightDataWidth t = 2 \<and> heightDataHeight t = 2 \<and> (\<forall>h \<in> set d. \<bar>h\<bar> \<le> M)
          \<longrightarrow> (\<exists>r. sampleHeightmap_f64 t (1 / 2) (1 / 2) = Inr r
                 \<and> \<bar>r - (d ! 0 + d ! 1 + d ! 2 + d ! 3) / 4\<bar> \<le> 180 * (eps64 * M)))
    \<and> ((\<forall>h \<in> set d. h = 100)
          \<longrightarrow> (\<exists>r. sampleHeightmap_f64 t u v = Inr r \<and> \<bar>r - 100\<bar> \<le> 180 * (eps64 * 100)))"
proof -
  note f = sampleHeightmap_f64_in_field [OF assms]
  have a: "(let W = heightDataWidth t; H = heightDataHeight t;
              px = fl64 (u * real_of_int (W - 1)); py = fl64 (v * real_of_int (H - 1));
              x0 = \<lfloor>px\<rfloor>; y0 = \<lfloor>py\<rfloor>;
              x1 = min (x0 + 1) (W - 1); y1 = min (y0 + 1) (H - 1);
              fx = fl64 (px - real_of_int x0); fy = fl64 (py - real_of_int y0);
              h00 = d ! nat (y0 * W + x0); h10 = d ! nat (y0 * W + x1);
              h01 = d ! nat (y1 * W + x0); h11 = d ! nat (y1 * W + x1);
              h0 = fl64 (fl64 (h00 * fl64 (1 - fx)) + fl64 (h10 * fx));
              h1 = fl64 (fl64 (h01 * fl64 (1 - fx)) + fl64 (h11 * fx))
          in 0 \<le> x0 \<and> x0 \<le> x1 \<and> x1 < W \<and> 0 \<le> y0 \<and> y0 \<le> y1 \<and> y1 < H
             \<and> sampleHeightmap_f64 t u v = Inr (fl64 (fl64 (h0 * fl64 (1 - fy)) + fl64 (h1 * fy)))
             \<and> ((\<forall>h \<in> set d. \<bar>h\<bar> \<le> M) \<longrightarrow>
                  \<bar>fl64 (fl64 (h0 * fl64 (1 - fy)) + fl64 (h1 * fy))
                    - ((h00 * (1 - fx) + h10 * fx) * (1 - fy)
                       + (h01 * (1 - fx) + h11 * fx) * fy)\<bar> \<le> 180 * (eps64 * M)))"
  proof -
    note c = sampleHeightmap_f64_close_ex [OF assms, of M]
    show ?thesis
      unfolding Let_def using f(1) f(2) c
      unfolding bilinear_f64_def bilinear_def Let_def by auto
  qed
  have len: "int (length d) = heightDataWidth t * heightDataHeight t"
    using assms(1) by (simp add: field_loaded_def)
  have b: "sampleHeightmap_f64 t 0 0 = Inr (d ! 0) \<and> sampleHeightmap_f64 t 1 0 = Inr (d ! 1)
            \<and> sampleHeightmap_f64 t 0 1 = Inr (d ! 2) \<and> sampleHeightmap_f64 t 1 1 = Inr (d ! 3)"
    if W: "heightDataWidth t = 2" and H: "heightDataHeight t = 2"
      and dbl: "\<forall>h \<in> set d. fl64 h = h"
  proof -
    have l4: "length d = 4" using len W H by simp
    have e: "fl64 (d ! 0) = d ! 0" "fl64 (d ! Suc 0) = d ! Suc 0" "fl64 (d ! 2) = d ! 2"
      "fl64 (d ! 3) = d ! 3"
      using dbl l4 by simp_all
    have big: "heightDataWidth t \<le> 2 ^ 53" "heightDataHeight t \<le> 2 ^ 53"
      using W H by simp_all
    have n: "nat 2 = 2" "nat 3 = 3" by simp_all
    have "sampleHeightmap_f64 t 0 0 = Inr (d ! 0)"
      using sampleHeightmap_f64_in_field(2) [OF assms(1) big, of 0 0]
      by (simp add: W H bilinear_f64_corner e)
    moreover have "sampleHeightmap_f64 t 1 0 = Inr (d ! 1)"
      using sampleHeightmap_f64_in_field(2) [OF assms(1) big, of 1 0]
      by (simp add: W H fl64_one bilinear_f64_corner e)
    moreover have "sampleHeightmap_f64 t 0 1 = Inr (d ! 2)"
      using sampleHeightmap_f64_in_field(2) [OF assms(1) big, of 0 1]
      by (simp add: W H fl64_one bilinear_f64_corner e n)
    moreover have "sampleHeightmap_f64 t 1 1 = Inr (d ! 3)"
      using sampleHeightmap_f64_in_field(2) [OF assms(1) big, of 1 1]
      by (simp add: W H fl64_one bilinear_f64_corner e n)
    ultimately show ?thesis by blast
  qed
  have c: "\<exists>r. sampleHeightmap_f64 t (1 / 2) (1 / 2) = Inr r
                 \<and> \<bar>r - (d ! 0 + d ! 1 + d ! 2 + d ! 3) / 4\<bar> \<le> 180 * (eps64 * M)"
    if W: "heightDataWidth t = 2" and H: "heightDataHeight t = 2"
      and M: "\<forall>h \<in> set d. \<bar>h\<bar> \<le> M"
  proof -
    have big: "heightDataWidth t \<le> 2 ^ 53" "heightDataHeight t \<le> 2 ^ 53"
      using W H by simp_all
    have h: "(0::real) \<le> 1 / 2" "(1 / 2 :: real) \<le> 1" by simp_all
    have fl: "\<lfloor>1 / 2 :: real\<rfloor> = 0" by simp
    have n: "nat 2 = 2" "nat 3 = 3" by simp_all
    have m: "bilinear (d ! 0) (d ! 1) (d ! 2) (d ! 3) (1 / 2) (1 / 2)
             = (d ! 0 + d ! 1 + d ! 2 + d ! 3) / 4"
      by (simp add: bilinear_def Let_def field_simps)
    have "\<exists>r. sampleHeightmap_f64 t (1 / 2) (1 / 2) = Inr r
      \<and> \<bar>r - bilinear (d ! 0) (d ! 1) (d ! 2) (d ! 3) (1 / 2) (1 / 2)\<bar> \<le> 180 * (eps64 * M)"
      using sampleHeightmap_f64_close_ex [OF assms(1) big h h M]
      by (simp add: W H fl64_one_half fl n)
    then show ?thesis unfolding m by blast
  qed
  have e: "\<exists>r. sampleHeightmap_f64 t u v = Inr r \<and> \<bar>r - 100\<bar> \<le> 180 * (eps64 * 100)"
    if k: "\<forall>h \<in> set d. h = 100"
  proof -
    have M: "\<forall>h \<in> set d. \<bar>h\<bar> \<le> 100" using k by auto
    note g = sampleHeightmap_f64_in_field(3) [OF assms]
    have s: "d ! i = 100" if "i < length d" for i using k that by simp
    have "\<exists>r. sampleHeightmap_f64 t u v = Inr r
      \<and> \<bar>r - bilinear 100 100 100 100
         (fl64 (fl64 (u * real_of_int (heightDataWidth t - 1))
                 - real_of_int \<lfloor>fl64 (u * real_of_int (heightDataWidth t - 1))\<rfloor>))
         (fl64 (fl64 (v * real_of_int (heightDataHeight t - 1))
                 - real_of_int \<lfloor>fl64 (v * real_of_int (heightDataHeight t - 1))\<rfloor>))\<bar>
       \<le> 180 * (eps64 * 100)"
      using sampleHeightmap_f64_close_ex [OF assms M] g by (simp add: s)
    then show ?thesis by (auto simp add: bilinear_const)
  qed
  from a b c e show ?thesis by blast
qed

theorem sampleHeightmap_f64_bilinear_witness:
  "field_loaded
     \<lparr>terrainWidth = 3000, terrainDepth = 3000, maxHeight = 8849, minHeight = 0,
      segments = 256, heightData = Some [10, 20, 30, 40],
      heightDataWidth = 2, heightDataHeight = 2\<rparr> [10, 20, 30, 40]
   \<and> sampleHeightmap_f64
     \<lparr>terrainWidth = 3000, terrainDepth = 3000, maxHeight = 8849, minHeight = 0,
      segments = 256, heightData = Some [10, 20, 30, 40],
      heightDataWidth = 2, heightDataHeight = 2\<rparr> 1 0 = Inr 20
   \<and> (\<exists>r. sampleHeightmap_f64
     \<lparr>terrainWidth = 3000, terrainDepth = 3000, maxHeight = 8849, minHeight = 0,
      segments = 256, heightData = Some [10, 20, 30, 40],
      heightDataWidth = 2, heightDataHeight = 2\<rparr> (1 / 2) (1 / 2) = Inr r
        \<and> \<bar>r - 25\<bar> \<le> 180 * (eps64 * 40))"
proof -
  define d :: "real list" where "d = [10, 20, 30, 40]"
  define t where "t = \<lparr>terrainWidth = 3000, terrainDepth = 3000, maxHeight = 8849,
      minHeight = 0, segments = 256, heightData = Some d,
      heightDataWidth = 2, heightDataHeight = 2\<rparr>"
  have l: "field_loaded t d" by (simp add: field_loaded_def t_def d_def)
  have W: "heightDataWidth t = 2" "heightDataHeight t = 2" by (simp_all add: t_def)
  have big: "heightDataWidth t \<le> 2 ^ 53" "heightDataHeight t \<le> 2 ^ 53"
    by (simp_all add: W)
  have h: "(0::real) \<le> 1 / 2" "(1 / 2 :: real) \<le> 1" by simp_all
  have dbl: "\<forall>h \<in> set d. fl64 h = h"
    by (simp add: d_def fl64_10 fl64_20 fl64_30 fl64_40)
  have M: "\<forall>h \<in> set d. \<bar>h\<bar> \<le> 40" by (simp add: d_def)
  have n: "d ! 0 = 10" "d ! 1 = 20" "d ! 2 = 30" "d ! 3 = 40"
    by (simp_all add: d_def numeral_2_eq_2 numeral_3_eq_3)
  note th = sampleHeightmap_f64_bilinear [OF l big h h, of 40]
  note corners = th [THEN conjunct2, THEN conjunct1, rule_format]
  note middle = th [THEN conjunct2, THEN conjunct2, THEN conjunct1, rule_format]
  have "sampleHeightmap_f64 t 1 0 = Inr (d ! 1)"
    using corners W dbl by blast
  then have a: "sampleHeightmap_f64 t 1 0 = Inr 20" by (simp only: n)
  have "\<exists>r. sampleHeightmap_f64 t (1 / 2) (1 / 2) = Inr r
        \<and> \<bar>r - (d ! 0 + d ! 1 + d ! 2 + d ! 3) / 4\<bar> \<le> 180 * (eps64 * 40)"
    using middle W M by blast
  moreover have "(d ! 0 + d ! 1 + d ! 2 + d ! 3) / 4 = 25" by (simp only: n) simp
  ultimately have b: "\<exists>r. sampleHeightmap_f64 t (1 / 2) (1 / 2) = Inr r
        \<and> \<bar>r - 25\<bar> \<le> 180 * (eps64 * 40)"
    by (simp only:)
  from l a b show ?thesis unfolding t_def d_def by blast
qed

text \<open>
  The claim as first stated fails: on the constant field of height \<open>100\<close> the
  query at \<open>u = 6052837899185947 / 2 ^ 58\<close> (the double nearest \<open>0.021\<close>), \<open>v = 0\<close>
  returns \<open>100 - 1 / 2 ^ 46\<close>, the double just below \<open>100\<close>.
\<close>

theorem sampleHeightmap_f64_constant_counterexample:
  "(\<forall>h \<in> set (the (heightData (loadHeightmap 2 2 (replicate 16 0)
        (LocalTerrainProvider_new \<lparr>opt_width = None, opt_depth = None,
           opt_maxHeight = Some 100, opt_minHeight = Some 100, opt_segments = None\<rparr>)))). h = 100)
     = True
   \<and> sampleHeightmap_f64
       (loadHeightmap 2 2 (replicate 16 0)
          (LocalTerrainProvider_new \<lparr>opt_width = None, opt_depth = None,
             opt_maxHeight = Some 100, opt_minHeight = Some 100, opt_segments = None\<rparr>))
       (6052837899185947 / 2 ^ 58) 0 = Inr (100 - 1 / 2 ^ 46)
   \<and> sampleHeightmap_f64
       (loadHeightmap 2 2 (replicate 16 0)
          (LocalTerrainProvider_new \<lparr>opt_width = None, opt_depth = None,
             opt_maxHeight = Some 100, opt_minHeight = Some 100, opt_segments = None\<rparr>))
       (6052837899185947 / 2 ^ 58) 0 \<noteq> Inr 100"
proof -
  define base where "base = LocalTerrainProvider_new \<lparr>opt_width = None, opt_depth = None,
           opt_maxHeight = Some 100, opt_minHeight = Some 100, opt_segments = None\<rparr>"
  define t where "t = loadHeightmap 2 2 (replicate 16 0) base"
  define u0 :: real where "u0 = 6052837899185947 / 2 ^ 58"
  have mm: "maxHeight base = minHeight base" "minHeight base = 100"
    by (simp_all add: base_def LocalTerrainProvider_new_def or_default_def)
  obtain d where l: "field_loaded t d" and c: "\<forall>s \<in> set d. s = 100"
    using loadHeightmap_level [of 2 2 base "replicate 16 0"] mm
    unfolding t_def by (auto simp add: fl64_100 fl32_100)
  have hd: "heightData t = Some d" using l by (simp add: field_loaded_def)
  have W: "heightDataWidth t = 2" "heightDataHeight t = 2"
    by (simp_all add: t_def loadHeightmap_def)
  have big: "heightDataWidth t \<le> 2 ^ 53" "heightDataHeight t \<le> 2 ^ 53"
    by (simp_all add: W)
  have u: "0 \<le> u0" "u0 \<le> 1" by (simp_all add: u0_def)
  have fu: "\<lfloor>u0\<rfloor> = 0" by (simp add: u0_def)
  have fu0: "fl64 u0 = u0" unfolding u0_def by (rule fl64_u0)
  have b100: "bilinear_f64 100 100 100 100 u0 0 = 100 - 1 / 2 ^ 46"
    unfolding u0_def by (rule bilinear_f64_100)
  have v: "(0::real) \<le> 0" "(0::real) \<le> 1" by simp_all
  note f = sampleHeightmap_f64_in_field [OF l big u v]
  have s: "d ! i = 100" if "i < length d" for i using c that by simp
  have "sampleHeightmap_f64 t u0 0 = Inr (bilinear_f64 100 100 100 100 u0 0)"
    using f(2) f(3) by (simp add: W fu0 fu s)
  then have r: "sampleHeightmap_f64 t u0 0 = Inr (100 - 1 / 2 ^ 46)"
    by (simp only: b100)
  have "(\<forall>h \<in> set (the (heightData t)). h = 100) = True" using c by (simp add: hd)
  moreover have "sampleHeightmap_f64 t u0 0 \<noteq> Inr 100" unfolding r by simp
  ultimately show ?thesis using r unfolding t_def base_def u0_def by blast
qed

section \<open>Height queries outside the footprint\<close>





section \<open>Clamp invariants of the flight dynamics\<close>

lemma vec_sel [simp]: "x (vec a b c) = a" "y (vec a b c) = b" "z (vec a b c) = c"
  by (simp_all add: vec_def)

lemma vlength_nonneg: "0 \<le> vlength v"
  by (simp add: vlength_def)

lemma vlength_multiplyScalar: "vlength (multiplyScalar v s) = \<bar>s\<bar> * vlength v"
proof -
  have "x v * s * (x v * s) + y v * s * (y v * s) + z v * s * (z v * s)
        = (s * s) * (x v * x v + y v * y v + z v * z v)"
    by (simp add: algebra_simps)
  then show ?thesis
    by (simp add: vlength_def multiplyScalar_def real_sqrt_mult)
qed

lemma vlength_normalize: "vlength v \<noteq> 0 \<Longrightarrow> vlength (vnormalize v) = 1"
proof -
  assume nz: "vlength v \<noteq> 0"
  let ?l = "vlength v"
  let ?S = "x v * x v + y v * y v + z v * z v"
  have S: "0 < ?S"
    using nz vlength_nonneg [of v] by (simp add: vlength_def less_le)
  have sq: "?l * ?l = ?S"
    by (simp add: vlength_def)
  have "x v / ?l * (x v / ?l) + y v / ?l * (y v / ?l) + z v / ?l * (z v / ?l)
        = ?S / (?l * ?l)"
    by (simp add: add_divide_distrib)
  also have "\<dots> = 1" unfolding sq using S by simp
  finally have "sqrt (x v / ?l * (x v / ?l) + y v / ?l * (y v / ?l) + z v / ?l * (z v / ?l)) = 1"
    by simp
  then show ?thesis
    using nz by (simp add: vnormalize_def Let_def vlength_def)
qed

lemma abs_clamp: "0 \<le> b \<Longrightarrow> \<bar>max (- b) (min b a)\<bar> \<le> (b::real)"
  by (auto simp add: max_def min_def)

lemma vlength_zero: "vlength (vec 0 0 0) = 0"
  by (simp add: vlength_def)

lemma clamp_speed_bound: "getSpeed (clamp_speed g) \<le> maxSpeed"
proof (cases "getSpeed g > maxSpeed")
  case True
  then have "vlength (velocity g) \<noteq> 0"
    by (simp add: getSpeed_def maxSpeed_def)
  then have "vlength (multiplyScalar (vnormalize (velocity g)) maxSpeed) = maxSpeed"
    by (simp add: vlength_multiplyScalar vlength_normalize maxSpeed_def)
  with True show ?thesis by (simp add: clamp_speed_def getSpeed_def)
next
  case False
  then show ?thesis by (simp add: clamp_speed_def)
qed

lemma updatePhysics_speed: "vlength (velocity (updatePhysics dt g)) \<le> maxSpeed"
proof -
  have a: "vlength (velocity (ground_check (integrate_position dt (clamp_speed h)))) \<le> maxSpeed"
    for h
    using clamp_speed_bound [of h]
    by (simp add: ground_check_def integrate_position_def crash_def getSpeed_def
        vlength_zero maxSpeed_def)
  show ?thesis unfolding updatePhysics_def Let_def by (rule a)
qed

lemma updatePhysics_angles:
  "pitch (updatePhysics dt g) = pitch g" "roll (updatePhysics dt g) = roll g"
  "yaw (updatePhysics dt g) = yaw g"
  by (simp_all add: updatePhysics_def Let_def ground_check_def integrate_position_def
      clamp_speed_def apply_dive_def apply_drag_def apply_lift_def apply_gravity_def crash_def)

lemma updateRotation_pitch: "\<bar>pitch (updateRotation dt g)\<bar> \<le> pi / 3"
  using abs_clamp [of "pi / 3"] by (simp add: updateRotation_def Let_def)

lemma updateRotation_roll:
  assumes "0 \<le> dt" "dt \<le> 0.1"
  shows "\<bar>roll (updateRotation dt g)\<bar> \<le> pi / 2"
proof -
  let ?r = "max (- pi / 2) (min (pi / 2) (roll g + rollInput g * rollRate * dt))"
  have r: "\<bar>?r\<bar> \<le> pi / 2" using abs_clamp [of "pi / 2"] by simp
  have f: "0 \<le> 1 - 0.5 * dt" "1 - 0.5 * dt \<le> 1" using assms by simp_all
  have "\<bar>?r * (1 - 0.5 * dt)\<bar> = \<bar>?r\<bar> * (1 - 0.5 * dt)"
    using f by (simp add: abs_mult)
  also have "\<dots> \<le> \<bar>?r\<bar> * 1" using f by (intro mult_left_mono) auto
  finally have "\<bar>?r * (1 - 0.5 * dt)\<bar> \<le> pi / 2" using r by simp
  with r show ?thesis by (simp add: updateRotation_def Let_def)
qed

lemma update_within_limits:
  assumes "\<not> crashed g" "0 \<le> dt"
  shows "within_limits (update dt g)"
proof -
  have d: "0 \<le> min dt 0.1" "min dt 0.1 \<le> 0.1" using assms by simp_all
  show ?thesis
    using assms updateRotation_pitch [of "min dt 0.1" g] updateRotation_roll [OF d, of g]
      updatePhysics_speed [of "min dt 0.1" "updateRotation (min dt 0.1) g"]
    by (simp add: within_limits_def update_def Let_def updatePhysics_angles getSpeed_def)
qed

lemma step_within_limits:
  assumes "within_limits g" "0 \<le> dt"
  shows "within_limits (step pIn rIn dt g)"
proof (cases "crashed g")
  case True
  then show ?thesis
    using assms by (simp add: step_def update_def setInput_def within_limits_def getSpeed_def)
next
  case False
  then have "\<not> crashed (setInput pIn rIn g)" by (simp add: setInput_def)
  then show ?thesis unfolding step_def using assms(2) by (rule update_within_limits)
qed

lemma steps_within_limits:
  assumes "within_limits g" "\<forall>(pIn, rIn, dt) \<in> set ins. 0 \<le> dt"
  shows "within_limits (steps ins g)"
  using assms
proof (induction ins arbitrary: g)
  case Nil
  then show ?case by simp
next
  case (Cons a ins)
  obtain pIn rIn dt where a: "a = (pIn, rIn, dt)" by (cases a) auto
  have "within_limits (step pIn rIn dt g)"
    using Cons.prems a by (intro step_within_limits) auto
  then show ?case using Cons.IH [of "step pIn rIn dt g"] Cons.prems(2) a by simp
qed

lemma vlength_z: "vlength (vec 0 0 c) = \<bar>c\<bar>"
  by (simp add: vlength_def)

lemma within_limits_new: "within_limits (Glider_new tp)"
  by (simp add: within_limits_def Glider_new_def vlength_z maxSpeed_def getSpeed_def)


lemma within_limits_reset: "within_limits (reset g)"
  by (simp add: within_limits_def reset_def vlength_z maxSpeed_def getSpeed_def)

text \<open>
  C3. From any state within the limits (a new or a reset glider is one), after every
  prefix of a sequence of steps whose inputs lie in \<open>[-1, 1]\<close> and whose time deltas are
  not negative, \<open>|pitch| \<le> pi/3\<close>, \<open>|roll| \<le> pi/2\<close> and the speed is at most
  \<open>maxSpeed = 80\<close>. (Real arithmetic: rounding is not modelled.)
\<close>

theorem clamp_invariants:
  assumes "within_limits g"
    and "\<forall>(pIn, rIn, dt) \<in> set ins. - 1 \<le> pIn \<and> pIn \<le> 1 \<and> - 1 \<le> rIn \<and> rIn \<le> 1 \<and> 0 \<le> dt"
  shows "(\<forall>n \<le> length ins. within_limits (steps (take n ins) g))
         \<and> within_limits (Glider_new tp) \<and> within_limits (reset g')"
proof -
  have "within_limits (steps (take n ins) g)" for n
  proof (rule steps_within_limits [OF assms(1)])
    show "\<forall>(pIn, rIn, dt) \<in> set (take n ins). 0 \<le> dt"
      using assms(2) by (auto dest: in_set_takeD)
  qed
  then show ?thesis
    using within_limits_new within_limits_reset by blast
qed

theorem clamp_invariants_witness:
  "within_limits (Glider_new None)
   \<and> - 1 \<le> (1::real) \<and> (1::real) \<le> 1 \<and> (0::real) \<le> 1 / 60
   \<and> - 1 \<le> (0::real) \<and> (1 / 2 :: real) \<le> 1 \<and> (0::real) \<le> 1 / 30
   \<and> within_limits (steps [(1, - 1, 1 / 60), (0, 1 / 2, 1 / 30)] (Glider_new None))"
proof -
  have a: "within_limits (Glider_new None)"
    by (simp add: within_limits_def Glider_new_def vlength_z maxSpeed_def getSpeed_def)
  have b: "\<forall>(pIn, rIn, dt) \<in> set [(1::real, - 1 :: real, 1 / 60 :: real), (0, 1 / 2, 1 / 30)].
         - 1 \<le> pIn \<and> pIn \<le> 1 \<and> - 1 \<le> rIn \<and> rIn \<le> 1 \<and> 0 \<le> dt"
    by simp
  let ?ins = "[(1::real, - 1 :: real, 1 / 60 :: real), (0, 1 / 2, 1 / 30)]"
  have "\<forall>n \<le> length ?ins. within_limits (steps (take n ?ins) (Glider_new None))"
    using clamp_invariants [OF a b] by blast
  then have "within_limits (steps (take (length ?ins) ?ins) (Glider_new None))"
    by blast
  then have "within_limits (steps ?ins (Glider_new None))"
    by (simp only: take_all order_refl)
  with a show ?thesis by simp
qed

section \<open>Crash is terminal until reset\<close>

lemma update_crashed: "crashed g \<Longrightarrow> update dt g = g"
  by (simp add: update_def)

lemma step_crashed:
  "crashed g \<Longrightarrow> crashed (step pIn rIn dt g) \<and> position (step pIn rIn dt g) = position g
     \<and> velocity (step pIn rIn dt g) = velocity g"
  by (simp add: step_def update_def setInput_def)

lemma steps_crashed:
  "crashed g \<Longrightarrow> crashed (steps ins g) \<and> position (steps ins g) = position g
     \<and> velocity (steps ins g) = velocity g"
proof (induction ins arbitrary: g)
  case Nil
  then show ?case by simp
next
  case (Cons a ins)
  obtain pIn rIn dt where a: "a = (pIn, rIn, dt)" by (cases a) auto
  from step_crashed [OF Cons.prems, of pIn rIn dt] Cons.IH [of "step pIn rIn dt g"]
  show ?case by (simp add: a)
qed

text \<open>
  C5. In a crashed state a step, and so any sequence of steps, leaves position and
  velocity unchanged and the state crashed; \<open>setInput\<close>, \<open>update\<close> and
  \<open>applyBoundaryForce\<close> keep the flag set, so only \<open>reset\<close> clears it. \<open>reset\<close> gives
  position \<open>(0, 1000, 0)\<close>, velocity \<open>(0, 0, -20)\<close>, zero pitch, roll and yaw, and
  \<open>crashed = false\<close>.
\<close>

theorem crash_terminal:
  "(crashed g \<longrightarrow> crashed (step pIn rIn dt g) \<and> position (step pIn rIn dt g) = position g
        \<and> velocity (step pIn rIn dt g) = velocity g)
   \<and> (crashed g \<longrightarrow> crashed (steps ins g) \<and> position (steps ins g) = position g
        \<and> velocity (steps ins g) = velocity g)
   \<and> (crashed g \<longrightarrow> crashed (setInput pIn rIn g) \<and> crashed (update dt g)
        \<and> crashed (applyBoundaryForce dir strength g))
   \<and> position (reset g) = vec 0 1000 0 \<and> velocity (reset g) = vec 0 0 (- 20)
   \<and> pitch (reset g) = 0 \<and> roll (reset g) = 0 \<and> yaw (reset g) = 0
   \<and> \<not> crashed (reset g)"
proof -
  have "crashed g \<longrightarrow> crashed (setInput pIn rIn g) \<and> crashed (update dt g)
        \<and> crashed (applyBoundaryForce dir strength g)"
    by (simp add: setInput_def update_def applyBoundaryForce_def Let_def)
  moreover have "position (reset g) = vec 0 1000 0 \<and> velocity (reset g) = vec 0 0 (- 20)
   \<and> pitch (reset g) = 0 \<and> roll (reset g) = 0 \<and> yaw (reset g) = 0
   \<and> \<not> crashed (reset g)"
    by (simp add: reset_def)
  ultimately show ?thesis
    using step_crashed [of g pIn rIn dt] steps_crashed [of g ins] by blast
qed

theorem crash_terminal_witness:
  "crashed (crash (Glider_new None))
   \<and> position (steps [(1, 1, 1 / 60), (0, 0, 1)] (crash (Glider_new None))) = vec 0 1000 0
   \<and> velocity (steps [(1, 1, 1 / 60), (0, 0, 1)] (crash (Glider_new None))) = vec 0 0 0
   \<and> crashed (steps [(1, 1, 1 / 60), (0, 0, 1)] (crash (Glider_new None)))
   \<and> \<not> crashed (reset (crash (Glider_new None)))"
  using crash_terminal [of "crash (Glider_new None)" 1 1 "1 / 60" "[(1, 1, 1 / 60), (0, 0, 1)]"]
  by (simp add: crash_def Glider_new_def)

section \<open>Stall: no lift at or below the minimum speed\<close>

lemma updateRotation_velocity: "velocity (updateRotation dt g) = velocity g"
  by (simp add: updateRotation_def Let_def)

lemma apply_lift_stall:
  "speed \<le> minSpeed \<Longrightarrow> apply_lift speed dt h = h\<lparr>debugLift := 0\<rparr>"
  by (simp add: apply_lift_def)

lemma apply_drag_debug:
  "apply_drag s d a dt (h\<lparr>debugAoA := r, debugLift := l\<rparr>)
   = (apply_drag s d a dt h)\<lparr>debugAoA := r, debugLift := l\<rparr>"
  by (simp add: apply_drag_def Let_def)

lemma apply_dive_debug:
  "apply_dive f dt (h\<lparr>debugAoA := r, debugLift := l\<rparr>)
   = (apply_dive f dt h)\<lparr>debugAoA := r, debugLift := l\<rparr>"
  by (simp add: apply_dive_def Let_def getSpeed_def)

lemma clamp_speed_debug:
  "clamp_speed (h\<lparr>debugAoA := r, debugLift := l\<rparr>)
   = (clamp_speed h)\<lparr>debugAoA := r, debugLift := l\<rparr>"
  by (simp add: clamp_speed_def getSpeed_def)

lemma integrate_position_debug:
  "integrate_position dt (h\<lparr>debugAoA := r, debugLift := l\<rparr>)
   = (integrate_position dt h)\<lparr>debugAoA := r, debugLift := l\<rparr>"
  by (simp add: integrate_position_def)

lemma ground_check_debug:
  "ground_check (h\<lparr>debugAoA := r, debugLift := l\<rparr>)
   = (ground_check h)\<lparr>debugAoA := r, debugLift := l\<rparr>"
  by (simp add: ground_check_def crash_def)

lemma apply_gravity_debug:
  "apply_gravity dt (h\<lparr>debugAoA := r\<rparr>) = (apply_gravity dt h)\<lparr>debugAoA := r\<rparr>"
  by (simp add: apply_gravity_def)

lemma updatePhysics_stall:
  assumes "getSpeed g \<le> minSpeed"
  shows "updatePhysics dt g
     = (ground_check (integrate_position dt (clamp_speed
            (apply_dive (applyQuaternion (vec 0 0 (- 1)) (rotation g)) dt
              (apply_drag (getSpeed g) (vnormalize (velocity g))
                 (angleOfAttack_of (applyQuaternion (vec 0 0 (- 1)) (rotation g))
                    (vnormalize (velocity g))) dt
                 (apply_gravity dt g))))))
       \<lparr>debugAoA := radToDeg (angleOfAttack_of (applyQuaternion (vec 0 0 (- 1)) (rotation g))
                    (vnormalize (velocity g))), debugLift := 0\<rparr>"
  unfolding updatePhysics_def Let_def apply_lift_stall [OF assms] apply_gravity_debug
  by (simp only: Glider.update_convs apply_drag_debug apply_dive_debug clamp_speed_debug
      integrate_position_debug ground_check_debug)

text \<open>
  C7. When the speed at the start of the physics step is at most \<open>minSpeed = 10\<close>, the
  lift block leaves the velocity as it is and sets \<open>debugLift\<close> to 0; the velocity after
  the whole physics step is then the one computed by gravity, drag, dive boost, speed
  clamp and ground check alone, and \<open>debugLift\<close> is 0 after \<open>update\<close>. When the speed
  exceeds \<open>minSpeed\<close>, the lift block adds the lift vector along the local up axis.
\<close>

theorem stall_no_lift:
  "(getSpeed g \<le> minSpeed \<longrightarrow>
       velocity (apply_lift (getSpeed g) dt h) = velocity h
     \<and> debugLift (apply_lift (getSpeed g) dt h) = 0)
   \<and> (getSpeed g \<le> minSpeed \<longrightarrow>
       debugLift (updatePhysics dt g) = 0
     \<and> velocity (updatePhysics dt g)
        = velocity (ground_check (integrate_position dt (clamp_speed
            (apply_dive (applyQuaternion (vec 0 0 (- 1)) (rotation g)) dt
              (apply_drag (getSpeed g) (vnormalize (velocity g))
                 (angleOfAttack_of (applyQuaternion (vec 0 0 (- 1)) (rotation g))
                    (vnormalize (velocity g))) dt
                 (apply_gravity dt g)))))))
   \<and> (\<not> crashed g \<and> getSpeed g \<le> minSpeed \<longrightarrow> debugLift (update dt g) = 0)
   \<and> (minSpeed < getSpeed g \<longrightarrow>
       velocity (apply_lift (getSpeed g) dt h)
        = vadd (velocity h)
            (multiplyScalar (applyQuaternion (vec 0 1 0) (rotation h))
               (liftCoefficient * min (getSpeed g / 30) 1.5 * cos (pitch h) * gravity * dt)))"
proof -
  have a: "getSpeed g \<le> minSpeed \<longrightarrow>
       velocity (apply_lift (getSpeed g) dt h) = velocity h
     \<and> debugLift (apply_lift (getSpeed g) dt h) = 0"
    by (simp add: apply_lift_stall)
  have b: "debugLift (updatePhysics dt g) = 0
     \<and> velocity (updatePhysics dt g)
        = velocity (ground_check (integrate_position dt (clamp_speed
            (apply_dive (applyQuaternion (vec 0 0 (- 1)) (rotation g)) dt
              (apply_drag (getSpeed g) (vnormalize (velocity g))
                 (angleOfAttack_of (applyQuaternion (vec 0 0 (- 1)) (rotation g))
                    (vnormalize (velocity g))) dt
                 (apply_gravity dt g))))))"
    if stall: "getSpeed g \<le> minSpeed" for g dt
    by (simp add: updatePhysics_stall [OF stall])
  have c: "\<not> crashed g \<and> getSpeed g \<le> minSpeed \<longrightarrow> debugLift (update dt g) = 0"
  proof (intro impI, elim conjE)
    assume nc: "\<not> crashed g" and stall: "getSpeed g \<le> minSpeed"
    have "getSpeed (updateRotation (min dt 0.1) g) \<le> minSpeed"
      using stall by (simp add: getSpeed_def updateRotation_velocity)
    from b [OF this] nc show "debugLift (update dt g) = 0"
      by (simp add: update_def Let_def)
  qed
  have e: "minSpeed < getSpeed g \<longrightarrow>
       velocity (apply_lift (getSpeed g) dt h)
        = vadd (velocity h)
            (multiplyScalar (applyQuaternion (vec 0 1 0) (rotation h))
               (liftCoefficient * min (getSpeed g / 30) 1.5 * cos (pitch h) * gravity * dt))"
    by (simp add: apply_lift_def Let_def)
  from a b [of g dt] c e show ?thesis by blast
qed

theorem stall_no_lift_witness:
  "getSpeed ((Glider_new None)\<lparr>velocity := vec 0 0 (- 5)\<rparr>) \<le> minSpeed
   \<and> \<not> crashed ((Glider_new None)\<lparr>velocity := vec 0 0 (- 5)\<rparr>)
   \<and> debugLift (update (1 / 60) ((Glider_new None)\<lparr>velocity := vec 0 0 (- 5)\<rparr>)) = 0
   \<and> velocity (apply_lift (getSpeed ((Glider_new None)\<lparr>velocity := vec 0 0 (- 5)\<rparr>)) (1 / 60)
        (apply_gravity (1 / 60) ((Glider_new None)\<lparr>velocity := vec 0 0 (- 5)\<rparr>)))
      = velocity (apply_gravity (1 / 60) ((Glider_new None)\<lparr>velocity := vec 0 0 (- 5)\<rparr>))"
proof -
  let ?g = "(Glider_new None)\<lparr>velocity := vec 0 0 (- 5)\<rparr>"
  have s: "getSpeed ?g \<le> minSpeed"
    by (simp add: getSpeed_def vlength_z minSpeed_def)
  have n: "\<not> crashed ?g" by (simp add: Glider_new_def)
  from stall_no_lift [of ?g "1 / 60" "apply_gravity (1 / 60) ?g"] s n
  show ?thesis by blast
qed

section \<open>Boundary correction\<close>

lemma while_above_pi_range:
  "while_above_pi d \<le> pi \<and> (\<exists>k::nat. while_above_pi d = d - 2 * pi * real k)
   \<and> (- pi \<le> d \<longrightarrow> - pi \<le> while_above_pi d) \<and> (d \<le> pi \<longrightarrow> while_above_pi d = d)"
proof (induction d rule: while_above_pi.induct)
  case (1 d)
  show ?case
  proof (cases "d > pi")
    case True
    from 1 [OF True] obtain k :: nat where
      k: "while_above_pi (d - 2 * pi) = d - 2 * pi - 2 * pi * real k"
      and le: "while_above_pi (d - 2 * pi) \<le> pi"
      and ge: "- pi \<le> d - 2 * pi \<longrightarrow> - pi \<le> while_above_pi (d - 2 * pi)"
      by blast
    have eq: "while_above_pi d = while_above_pi (d - 2 * pi)"
      using True by (subst while_above_pi.simps) simp
    have "while_above_pi d = d - 2 * pi * real (Suc k)"
      using k eq by (simp add: algebra_simps)
    then have ex: "\<exists>k::nat. while_above_pi d = d - 2 * pi * real k" by blast
    have "- pi \<le> d - 2 * pi" using True by simp
    with ge eq le ex True show ?thesis by simp
  next
    case False
    then have eq: "while_above_pi d = d" by (subst while_above_pi.simps) simp
    have "while_above_pi d = d - 2 * pi * real (0::nat)" using eq by simp
    then have "\<exists>k::nat. while_above_pi d = d - 2 * pi * real k" by blast
    with eq False show ?thesis by simp
  qed
qed

lemma while_below_minus_pi_range:
  "- pi \<le> while_below_minus_pi d \<and> (\<exists>k::nat. while_below_minus_pi d = d + 2 * pi * real k)
   \<and> (d \<le> pi \<longrightarrow> while_below_minus_pi d \<le> pi) \<and> (- pi \<le> d \<longrightarrow> while_below_minus_pi d = d)"
proof (induction d rule: while_below_minus_pi.induct)
  case (1 d)
  show ?case
  proof (cases "d < - pi")
    case True
    from 1 [OF True] obtain k :: nat where
      k: "while_below_minus_pi (d + 2 * pi) = d + 2 * pi + 2 * pi * real k"
      and ge: "- pi \<le> while_below_minus_pi (d + 2 * pi)"
      and le: "d + 2 * pi \<le> pi \<longrightarrow> while_below_minus_pi (d + 2 * pi) \<le> pi"
      by blast
    have eq: "while_below_minus_pi d = while_below_minus_pi (d + 2 * pi)"
      using True by (subst while_below_minus_pi.simps) simp
    have "while_below_minus_pi d = d + 2 * pi * real (Suc k)"
      using k eq by (simp add: algebra_simps)
    then have ex: "\<exists>k::nat. while_below_minus_pi d = d + 2 * pi * real k" by blast
    have "d + 2 * pi \<le> pi" using True by simp
    with ge eq le ex True show ?thesis by simp
  next
    case False
    then have eq: "while_below_minus_pi d = d" by (subst while_below_minus_pi.simps) simp
    have "while_below_minus_pi d = d + 2 * pi * real (0::nat)" using eq by simp
    then have "\<exists>k::nat. while_below_minus_pi d = d + 2 * pi * real k" by blast
    with eq False show ?thesis by simp
  qed
qed


lemma yaw_correction_eq:
  "yaw_correction dir s g = normalizedDiff_of dir g * s * 0.02"
  by (simp add: yaw_correction_def applyBoundaryForce_def normalizedDiff_of_def Let_def)

lemma inside_buffer_iff:
  "inside_buffer t pos \<longleftrightarrow> \<not> (distToEdge_x t pos > 0 \<or> distToEdge_z t pos > 0)"
  by (auto simp add: inside_buffer_def distToEdge_x_def distToEdge_z_def less_max_iff_disj)


lemma checkBoundaries_outside:
  "\<not> inside_buffer t (position g) \<Longrightarrow>
   checkBoundaries t g
     = applyBoundaryForce (vnormalize (vec (- x (position g)) 0 (- z (position g))))
         (min (max (distToEdge_x t (position g)) (distToEdge_z t (position g)) / buffer_zone) 1) g"
  by (simp add: checkBoundaries_def inside_buffer_iff Let_def)

lemma vlength_x0: "vlength (vec c 0 0) = \<bar>c\<bar>"
  by (simp add: vlength_def)

lemma normalizedDiff_small:
  "- pi \<le> atan2 (x dir) (- z dir) - yaw g \<Longrightarrow> atan2 (x dir) (- z dir) - yaw g \<le> pi
   \<Longrightarrow> normalizedDiff_of dir g = atan2 (x dir) (- z dir) - yaw g"
  using while_above_pi_range [of "atan2 (x dir) (- z dir) - yaw g"]
    while_below_minus_pi_range [of "atan2 (x dir) (- z dir) - yaw g"]
  by (simp add: normalizedDiff_of_def)




section \<open>A crashed glider still turns at the boundary\<close>

lemma applyBoundaryForce_frame:
  "position (applyBoundaryForce d s g) = position g"
  "velocity (applyBoundaryForce d s g) = velocity g"
  "crashed (applyBoundaryForce d s g) = crashed g"
  by (simp_all add: applyBoundaryForce_def Let_def)

lemma checkBoundaries_frame:
  "position (checkBoundaries t g) = position g"
  "velocity (checkBoundaries t g) = velocity g"
  "crashed (checkBoundaries t g) = crashed g"
  by (simp_all add: checkBoundaries_def Let_def applyBoundaryForce_frame)

lemma animate_crashed:
  assumes "\<not> loading game" "crashed (glider game)"
  shows "glider (animate dt game)
         = checkBoundaries (terrainProvider game)
             (setInput (getPitch (im_update (inputManager game)))
                (getRoll (im_update (inputManager game))) (glider game))"
  using assms by (simp add: animate_def Let_def update_def setInput_def)

text \<open>
  C10. When the game is not loading and the glider is crashed, one frame of \<open>animate\<close>
  leaves position and velocity unchanged and the glider crashed, but sets yaw to what
  \<open>checkBoundaries\<close> computes: \<open>update\<close> returns at once, the boundary check runs all the
  same, and \<open>applyBoundaryForce\<close> has no crashed guard. For the crashed glider at
  \<open>(2800, -1, 0)\<close> with yaw 0 on the terrain of \<open>loadTerrain\<close> (50 m into the buffer of
  the +x edge) the frame changes yaw from 0 to \<open>-pi/200\<close>.
\<close>

theorem crashed_yaw_not_frozen:
  "(\<not> loading game \<and> crashed (glider game) \<longrightarrow>
       position (glider (animate dt game)) = position (glider game)
     \<and> velocity (glider (animate dt game)) = velocity (glider game)
     \<and> crashed (glider (animate dt game))
     \<and> yaw (glider (animate dt game)) = yaw (checkBoundaries (terrainProvider game) (glider game)))
   \<and> (\<not> loading game \<and> crashed (glider game)
       \<and> terrainProvider game = loadTerrain w h pixels
       \<and> position (glider game) = vec 2800 (- 1) 0 \<and> yaw (glider game) = 0 \<longrightarrow>
       yaw (glider (animate dt game)) = - pi / 200
     \<and> yaw (glider (animate dt game)) \<noteq> yaw (glider game))"
proof -
  have a: "position (glider (animate dt game)) = position (glider game)
     \<and> velocity (glider (animate dt game)) = velocity (glider game)
     \<and> crashed (glider (animate dt game))
     \<and> yaw (glider (animate dt game)) = yaw (checkBoundaries (terrainProvider game) (glider game))"
    if "\<not> loading game" "crashed (glider game)"
    unfolding animate_crashed [OF that]
    using that(2)
    by (simp add: checkBoundaries_frame)
       (simp add: setInput_def checkBoundaries_def applyBoundaryForce_def Let_def)
  have b: "yaw (checkBoundaries (loadTerrain w h pixels) g) = - pi / 200"
    if p: "position g = vec 2800 (- 1) 0" and y0: "yaw g = 0" for g
  proof -
    have ni: "\<not> inside_buffer (loadTerrain w h pixels) (position g)"
      by (simp add: p inside_buffer_def loadTerrain_def loadHeightmap_def getBounds_def
          LocalTerrainProvider_new_def or_default_def buffer_zone_def)
    have dx: "distToEdge_x (loadTerrain w h pixels) (position g) = 50"
      by (simp add: p distToEdge_x_def loadTerrain_def loadHeightmap_def getBounds_def
          LocalTerrainProvider_new_def or_default_def buffer_zone_def)
    have dz: "distToEdge_z (loadTerrain w h pixels) (position g) = - 1400"
      by (simp add: p distToEdge_z_def loadTerrain_def loadHeightmap_def getBounds_def
          LocalTerrainProvider_new_def or_default_def buffer_zone_def)
    have v: "vnormalize (vec (- x (position g)) 0 (- z (position g))) = vec (- 1) 0 0"
      using vlength_x0 [of "- 2800"] by (simp add: p vnormalize_def Let_def)
    have t: "atan2 (x (vec (- 1) 0 0)) (- z (vec (- 1) 0 0)) - yaw g = - pi / 2"
      by (simp add: atan2_def y0)
    have n: "normalizedDiff_of (vec (- 1) 0 0) g = - pi / 2"
      using normalizedDiff_small [of "vec (- 1) 0 0" g] pi_gt_zero
      unfolding t by linarith
    have "yaw_correction (vec (- 1) 0 0) (1 / 2) g = - pi / 200"
      by (simp add: yaw_correction_eq n)
    then have "yaw (applyBoundaryForce (vec (- 1) 0 0) (1 / 2) g) = - pi / 200"
      by (simp add: yaw_correction_def y0)
    then show ?thesis
      unfolding checkBoundaries_outside [OF ni] v dx dz
      by (simp add: buffer_zone_def)
  qed
  have c: "yaw (glider (animate dt game)) = - pi / 200
     \<and> yaw (glider (animate dt game)) \<noteq> yaw (glider game)"
    if "\<not> loading game" "crashed (glider game)"
       "terrainProvider game = loadTerrain w h pixels"
       "position (glider game) = vec 2800 (- 1) 0" "yaw (glider game) = 0"
  proof -
    have "yaw (glider (animate dt game)) = - pi / 200"
      using a [OF that(1,2)] b [OF that(4,5)] that(3) by simp
    then show ?thesis using that(5) pi_gt_zero by simp
  qed
  from a c show ?thesis by blast
qed

theorem crashed_yaw_not_frozen_witness:
  "\<not> loading ((Game_init 2 2 (replicate 16 255))\<lparr>glider := crash ((Glider_new None)\<lparr>position := vec 2800 (- 1) 0\<rparr>)\<rparr>)
   \<and> crashed (glider ((Game_init 2 2 (replicate 16 255))\<lparr>glider := crash ((Glider_new None)\<lparr>position := vec 2800 (- 1) 0\<rparr>)\<rparr>))
   \<and> yaw (glider ((Game_init 2 2 (replicate 16 255))\<lparr>glider := crash ((Glider_new None)\<lparr>position := vec 2800 (- 1) 0\<rparr>)\<rparr>)) = 0
   \<and> yaw (glider (animate (1 / 60)
        ((Game_init 2 2 (replicate 16 255))\<lparr>glider := crash ((Glider_new None)\<lparr>position := vec 2800 (- 1) 0\<rparr>)\<rparr>)))
       = - pi / 200
   \<and> position (glider (animate (1 / 60)
        ((Game_init 2 2 (replicate 16 255))\<lparr>glider := crash ((Glider_new None)\<lparr>position := vec 2800 (- 1) 0\<rparr>)\<rparr>)))
       = vec 2800 (- 1) 0
   \<and> velocity (glider (animate (1 / 60)
        ((Game_init 2 2 (replicate 16 255))\<lparr>glider := crash ((Glider_new None)\<lparr>position := vec 2800 (- 1) 0\<rparr>)\<rparr>)))
       = vec 0 0 0"
  using crashed_yaw_not_frozen
    [of "(Game_init 2 2 (replicate 16 255))\<lparr>glider := crash ((Glider_new None)\<lparr>position := vec 2800 (- 1) 0\<rparr>)\<rparr>"
        "1 / 60" 2 2 "replicate 16 255"]
  by (simp add: Game_init_def Let_def crash_def Glider_new_def)

section \<open>The glide with zero input\<close>

lemma abs_le_sqrt_sum: "\<bar>a\<bar> \<le> sqrt (a * a + b * b)"
proof -
  have "a * a \<le> a * a + b * b" by simp
  then have "sqrt (a * a) \<le> sqrt (a * a + b * b)" by (rule real_sqrt_le_mono)
  then show ?thesis by simp
qed

lemma damped_fall_speed:
  fixes vy vz k b s :: real
  assumes s: "s = sqrt (vy * vy + vz * vz)" and vy: "vy \<le> 0"
    and k: "0 \<le> k" "k \<le> 1" and b: "0 \<le> b"
  shows "sqrt ((vy * (1 - k) - b) * (vy * (1 - k) - b) + vz * (1 - k) * (vz * (1 - k)))
         \<le> (1 - k) * s + b"
proof (rule real_le_lsqrt)
  have s0: "0 \<le> s" using s by simp
  show "0 \<le> (1 - k) * s + b" using s0 k b by simp
  have ss: "s * s = vy * vy + vz * vz" using s by simp
  define t where "t = (1 - k) * b"
  have t0: "0 \<le> t" using k b by (simp add: t_def)
  have "- vy \<le> s" using abs_le_sqrt_sum [of vy vz] vy s by simp
  then have "t * (- vy) \<le> t * s"
    using t0 by (rule mult_left_mono)
  then have "- (t * vy) \<le> t * s" by (simp only: mult_minus_right)
  then have m: "- (2 * (t * vy)) \<le> 2 * (t * s)" by linarith
  have "(vy * (1 - k) - b) * (vy * (1 - k) - b) + vz * (1 - k) * (vz * (1 - k))
        = (1 - k) * (1 - k) * (vy * vy + vz * vz) - 2 * (t * vy) + b * b"
    by (simp add: algebra_simps t_def)
  also have "\<dots> = (1 - k) * (1 - k) * (s * s) - 2 * (t * vy) + b * b"
    by (simp only: ss)
  also have "\<dots> \<le> (1 - k) * (1 - k) * (s * s) + 2 * (t * s) + b * b"
    using m by linarith
  also have "\<dots> = ((1 - k) * s + b)\<^sup>2"
    by (simp add: power2_eq_square algebra_simps t_def)
  finally show "(vy * (1 - k) - b) * (vy * (1 - k) - b) + vz * (1 - k) * (vz * (1 - k))
        \<le> ((1 - k) * s + b)\<^sup>2" .
qed

lemma glide_speed_bound:
  fixes s k b :: real
  assumes s: "0 \<le> s" "s \<le> 30" and b: "b \<le> 1635 / 10000"
    and k: "0 \<le> k" and kd: "1 / 10 < s \<longrightarrow> s / 3000 \<le> k"
  shows "(1 - k) * s + b \<le> 30"
proof (cases "s \<le> 29")
  case True
  have "k * s \<ge> 0" using k s by simp
  then have "(1 - k) * s \<le> s" by (simp add: algebra_simps)
  then show ?thesis using True b by simp
next
  case False
  then have s29: "29 \<le> s" by simp
  then have "s / 3000 \<le> k" using kd by simp
  then have "s / 3000 * s \<le> k * s" using s by (intro mult_right_mono) auto
  moreover have "29 / 3000 * 29 \<le> s / 3000 * s"
    using s29 by (intro mult_mono) auto
  ultimately have "841 / 3000 \<le> k * s" by simp
  then have "(1 - k) * s \<le> s - 841 / 3000" by (simp add: algebra_simps)
  then show ?thesis using s b by simp
qed

lemma applyQuaternion_identity: "applyQuaternion v quat_identity = vec (x v) (y v) (z v)"
  by (simp add: applyQuaternion_def quat_identity_def Let_def)

lemma setFromEuler_zero: "setFromEuler_YXZ 0 0 0 = quat_identity"
  by (simp add: setFromEuler_YXZ_def quat_identity_def)

lemma updateRotation_level:
  assumes "pitchInput g = 0" "rollInput g = 0" "pitch g = 0" "roll g = 0" "yaw g = 0"
  shows "updateRotation dt g = g\<lparr>pitch := 0, roll := 0, yaw := 0, rotation := quat_identity\<rparr>"
  using assms by (simp add: updateRotation_def Let_def setFromEuler_zero)

lemma velocity_apply_gravity:
  "velocity (apply_gravity dt g)
   = vec (x (velocity g)) (y (velocity g) - gravity * dt) (z (velocity g))"
  by (simp add: apply_gravity_def vec_def)

lemma apply_gravity_frame:
  "pitch (apply_gravity dt g) = pitch g" "rotation (apply_gravity dt g) = rotation g"
  by (simp_all add: apply_gravity_def)

lemma vadd_zero: "vadd v (vec 0 0 0) = v"
  by (simp add: vadd_def vec_def)

lemma velocity_apply_lift_level:
  assumes "pitch g = 0" "rotation g = quat_identity"
  shows "velocity (apply_lift s dt g) = vadd (velocity g) (vec 0 (glide_lift s * dt) 0)"
  using assms
  by (simp add: apply_lift_def glide_lift_def Let_def applyQuaternion_identity
      multiplyScalar_def vadd_zero)

lemma apply_lift_frame:
  "pitch (apply_lift s dt g) = pitch g"
  by (simp add: apply_lift_def Let_def)

lemma velocity_apply_drag_level:
  assumes "pitch g = 0"
  shows "velocity (apply_drag (vlength v0) (vnormalize v0) a dt g)
         = vadd (velocity g) (multiplyScalar v0 (- glide_drag (vlength v0) a dt))"
proof (cases "vlength v0 > 0.1")
  case True
  then have nz: "vlength v0 \<noteq> 0" by simp
  have "multiplyScalar (vnormalize v0)
          (- (vlength v0 * vlength v0 * (baseDrag + a * 0.02) * dt))
        = multiplyScalar v0 (- (vlength v0 * (baseDrag + a * 0.02) * dt))"
    using nz by (simp add: multiplyScalar_def vnormalize_def Let_def)
  then show ?thesis
    using True assms by (simp add: apply_drag_def glide_drag_def Let_def)
next
  case False
  then show ?thesis
    by (simp add: apply_drag_def glide_drag_def Let_def vadd_def multiplyScalar_def vec_def)
qed

lemma apply_drag_frame:
  "pitch (apply_drag s d a dt g) = pitch g"
  by (simp add: apply_drag_def Let_def)

lemma apply_dive_level: "pitch g = 0 \<Longrightarrow> apply_dive f dt g = g"
  by (simp add: apply_dive_def)

lemma clamp_speed_slow: "getSpeed g \<le> maxSpeed \<Longrightarrow> clamp_speed g = g"
  by (simp add: clamp_speed_def)

lemma stage_frames:
  "position (apply_gravity dt g) = position g" "crashed (apply_gravity dt g) = crashed g"
  "position (apply_lift s dt g) = position g" "crashed (apply_lift s dt g) = crashed g"
  "rotation (apply_lift s dt g) = rotation g"
  "position (apply_drag s d a dt g) = position g" "crashed (apply_drag s d a dt g) = crashed g"
  by (simp_all add: apply_gravity_def apply_lift_def apply_drag_def Let_def)

lemma angleOfAttack_range:
  "0 \<le> angleOfAttack_of f d \<and> angleOfAttack_of f d \<le> pi"
  unfolding angleOfAttack_of_def
  by (intro conjI arccos_lbound arccos_ubound) simp_all

lemma glide_lift_range:
  assumes "s \<le> 30"
  shows "0 \<le> glide_lift s \<and> glide_lift s \<le> 7848 / 1000"
proof (cases "s > minSpeed")
  case True
  then have s0: "0 \<le> s" by (simp add: minSpeed_def)
  have m: "min (s / 30) 1.5 = s / 30" using assms by simp
  have "s / 30 \<le> 1" using assms by simp
  then have "0.8 * (s / 30) * 9.81 \<le> 0.8 * 1 * 9.81"
    by (intro mult_right_mono mult_left_mono) auto
  then show ?thesis
    using True s0 by (simp add: glide_lift_def m liftCoefficient_def gravity_def)
next
  case False
  then show ?thesis by (simp add: glide_lift_def)
qed

lemma glide_drag_range:
  assumes s: "0 \<le> s" "s \<le> 30" and a: "0 \<le> a" "a \<le> pi"
  shows "0 \<le> glide_drag s a (1 / 60) \<and> glide_drag s a (1 / 60) \<le> 1 / 20
         \<and> (1 / 10 < s \<longrightarrow> s / 3000 \<le> glide_drag s a (1 / 60))"
proof (cases "s > 0.1")
  case True
  have a4: "a \<le> 4" using a pi_less_4 by linarith
  let ?c = "baseDrag + a * 0.02"
  have c: "2 / 100 \<le> ?c" "?c \<le> 1 / 10" using a a4 by (simp_all add: baseDrag_def)
  have eq: "glide_drag s a (1 / 60) = s * ?c / 60" using True by (simp add: glide_drag_def)
  have lo: "s * (2 / 100) \<le> s * ?c" using c s by (intro mult_left_mono) auto
  have hi: "s * ?c \<le> 30 * (1 / 10)" using c s by (intro mult_mono) auto
  have "0 \<le> s * ?c" using lo s by simp
  with lo hi show ?thesis unfolding eq by simp
next
  case False
  then show ?thesis by (simp add: glide_drag_def)
qed

lemma updatePhysics_level:
  assumes p: "pitch h = 0" and r: "rotation h = quat_identity"
    and vx: "x (velocity h) = 0" and vy: "y (velocity h) \<le> 0" and sp: "getSpeed h \<le> 30"
  obtains k b where "0 \<le> k" "k \<le> 1 / 20" "327 / 10000 \<le> b" "b \<le> 1635 / 10000"
    and "1 / 10 < getSpeed h \<longrightarrow> getSpeed h / 3000 \<le> k"
    and "vlength (vec 0 (y (velocity h) * (1 - k) - b) (z (velocity h) * (1 - k))) \<le> 30"
    and "position (updatePhysics (1 / 60) h)
          = vadd (position h)
              (multiplyScalar (vec 0 (y (velocity h) * (1 - k) - b) (z (velocity h) * (1 - k)))
                 (1 / 60))"
    and "crashed (updatePhysics (1 / 60) h)
          \<longleftrightarrow> crashed h \<or> y (position (updatePhysics (1 / 60) h)) < 0"
    and "\<not> y (position (updatePhysics (1 / 60) h)) < 0 \<Longrightarrow>
          velocity (updatePhysics (1 / 60) h)
            = vec 0 (y (velocity h) * (1 - k) - b) (z (velocity h) * (1 - k))"
proof -
  define s where "s = getSpeed h"
  define fwd where "fwd = applyQuaternion (vec 0 0 (- 1)) (rotation h)"
  define dir where "dir = vnormalize (velocity h)"
  define a where "a = angleOfAttack_of fwd dir"
  define k where "k = glide_drag s a (1 / 60)"
  define b where "b = (gravity - glide_lift s) * (1 / 60)"
  define v3 where "v3 = vec 0 (y (velocity h) * (1 - k) - b) (z (velocity h) * (1 - k))"
  define g3 where "g3 = apply_drag s dir a (1 / 60)
      (apply_lift s (1 / 60) (apply_gravity (1 / 60) (h\<lparr>debugAoA := radToDeg a\<rparr>)))"
  have s_eq: "s = vlength (velocity h)" by (simp add: s_def getSpeed_def)
  have s0: "0 \<le> s" unfolding s_eq by (rule vlength_nonneg)
  have s30: "s \<le> 30" using sp by (simp add: s_def)
  note ar = angleOfAttack_range [of fwd dir, folded a_def]
  note kr = glide_drag_range [OF s0 s30 conjunct1 [OF ar] conjunct2 [OF ar], folded k_def]
  have k1: "k \<le> 1" using kr by linarith
  have ks: "1 / 10 < getSpeed h \<longrightarrow> getSpeed h / 3000 \<le> k"
    using kr unfolding s_def by blast
  note lr = glide_lift_range [OF s30]
  have b1: "327 / 10000 \<le> b" and b2: "b \<le> 1635 / 10000"
    using lr by (simp_all add: b_def gravity_def)
  have v3_eq: "velocity g3 = v3"
  proof -
    have "velocity g3
        = vadd (vadd (vec (x (velocity h)) (y (velocity h) - gravity * (1 / 60)) (z (velocity h)))
             (vec 0 (glide_lift s * (1 / 60)) 0))
            (multiplyScalar (velocity h) (- glide_drag (vlength (velocity h)) a (1 / 60)))"
      unfolding g3_def s_eq dir_def
      by (simp add: velocity_apply_drag_level velocity_apply_lift_level velocity_apply_gravity
          apply_lift_frame apply_gravity_frame stage_frames p r)
    also have "\<dots> = v3"
      by (simp add: v3_def vadd_def multiplyScalar_def vx k_def b_def s_eq algebra_simps
          diff_divide_distrib)
    finally show ?thesis .
  qed
  have sq: "s = sqrt (y (velocity h) * y (velocity h) + z (velocity h) * z (velocity h))"
    by (simp add: s_eq vlength_def vx)
  have "vlength v3 \<le> (1 - k) * s + b"
    using damped_fall_speed [OF sq vy, of k b] kr k1 b1
    by (simp add: v3_def vlength_def)
  also have "\<dots> \<le> 30"
    using glide_speed_bound [OF s0 s30 b2, of k] kr by blast
  finally have v30: "vlength v3 \<le> 30" .
  have g3_frame: "pitch g3 = 0" "position g3 = position h" "crashed g3 = crashed h"
    by (simp_all add: g3_def apply_drag_frame apply_lift_frame apply_gravity_frame
        stage_frames p)
  have up: "updatePhysics (1 / 60) h = ground_check (integrate_position (1 / 60) g3)"
  proof -
    have d: "apply_dive fwd (1 / 60) g3 = g3"
      using g3_frame(1) by (rule apply_dive_level)
    have c: "clamp_speed g3 = g3"
      by (rule clamp_speed_slow) (use v30 v3_eq in \<open>simp add: getSpeed_def maxSpeed_def\<close>)
    show ?thesis
      unfolding updatePhysics_def Let_def
      unfolding s_def [symmetric] fwd_def [symmetric] dir_def [symmetric]
      unfolding a_def [symmetric] g3_def [symmetric]
      by (simp only: d c)
  qed
  have pos: "position (updatePhysics (1 / 60) h) = vadd (position h) (multiplyScalar v3 (1 / 60))"
    unfolding up
    by (simp add: ground_check_def crash_def integrate_position_def g3_frame v3_eq)
  have cr: "crashed (updatePhysics (1 / 60) h)
          \<longleftrightarrow> crashed h \<or> y (position (updatePhysics (1 / 60) h)) < 0"
    unfolding pos unfolding up
    by (simp add: ground_check_def crash_def integrate_position_def g3_frame v3_eq)
  have vel: "velocity (updatePhysics (1 / 60) h) = v3"
    if "\<not> y (position (updatePhysics (1 / 60) h)) < 0"
    using that unfolding pos unfolding up
    by (simp add: ground_check_def crash_def integrate_position_def g3_frame v3_eq)
  show ?thesis
    using that [of k b] kr ks b1 b2 v30 pos cr vel unfolding v3_def by blast
qed

lemma abs_y_le_vlength: "\<bar>b\<bar> \<le> vlength (vec 0 b c)"
  using abs_le_sqrt_sum [of b c] by (simp add: vlength_def)

lemma abs_z_le_vlength: "\<bar>c\<bar> \<le> vlength (vec 0 b c)"
  using abs_le_sqrt_sum [of c b] by (simp add: vlength_def add.commute)

lemma glide_step:
  assumes inv: "glide_inv g"
  shows "y (position (step 0 0 (1 / 60) g)) \<le> y (position g) - 327 / 600000"
    and "y (position g) - 1 / 2 \<le> y (position (step 0 0 (1 / 60) g))"
    and "\<bar>z (position (step 0 0 (1 / 60) g)) - z (position g)\<bar> \<le> 1 / 2"
    and "x (position (step 0 0 (1 / 60) g)) = 0"
    and "crashed (step 0 0 (1 / 60) g) \<longleftrightarrow> y (position (step 0 0 (1 / 60) g)) < 0"
    and "\<not> crashed (step 0 0 (1 / 60) g) \<Longrightarrow> glide_inv (step 0 0 (1 / 60) g)"
    and "\<not> crashed (step 0 0 (1 / 60) g) \<Longrightarrow>
          y (velocity (step 0 0 (1 / 60) g)) \<le> 19 / 20 * y (velocity g) - 327 / 10000
          \<and> y (position (step 0 0 (1 / 60) g))
              = y (position g) + y (velocity (step 0 0 (1 / 60) g)) / 60"
    and "\<not> crashed (step 0 0 (1 / 60) g) \<Longrightarrow>
          \<exists>k. 0 \<le> k \<and> k \<le> 1 / 20 \<and> (1 / 10 < getSpeed g \<longrightarrow> getSpeed g / 3000 \<le> k)
            \<and> z (velocity (step 0 0 (1 / 60) g)) = z (velocity g) * (1 - k)
            \<and> z (position (step 0 0 (1 / 60) g))
                = z (position g) + z (velocity (step 0 0 (1 / 60) g)) / 60"
proof -
  define h where "h = (setInput 0 0 g)\<lparr>pitch := 0, roll := 0, yaw := 0, rotation := quat_identity\<rparr>"
  have nc: "\<not> crashed g" and ang: "pitch g = 0" "roll g = 0" "yaw g = 0"
    and gx: "x (velocity g) = 0" and gy: "y (velocity g) \<le> 0" and gs: "getSpeed g \<le> 30"
    and px: "x (position g) = 0"
    using inv by (simp_all add: glide_inv_def)
  have rot: "updateRotation (1 / 60) (setInput 0 0 g) = h"
    unfolding h_def by (rule updateRotation_level) (simp_all add: setInput_def ang)
  have nc': "\<not> crashed (setInput 0 0 g)" using nc by (simp add: setInput_def)
  have st: "step 0 0 (1 / 60) g = updatePhysics (1 / 60) h"
    using nc' by (simp add: step_def update_def Let_def rot)
  have hf: "pitch h = 0" "roll h = 0" "yaw h = 0" "rotation h = quat_identity"
    "velocity h = velocity g" "position h = position g" "\<not> crashed h"
    using nc by (simp_all add: h_def setInput_def)
  have hs: "getSpeed h \<le> 30" using gs by (simp add: getSpeed_def hf)
  have gh: "getSpeed h = getSpeed g" by (simp add: getSpeed_def hf)
  obtain k b where k: "0 \<le> k" "k \<le> 1 / 20" and b: "327 / 10000 \<le> b" "b \<le> 1635 / 10000"
    and ks: "1 / 10 < getSpeed g \<longrightarrow> getSpeed g / 3000 \<le> k"
    and v30: "vlength (vec 0 (y (velocity g) * (1 - k) - b) (z (velocity g) * (1 - k))) \<le> 30"
    and pos: "position (updatePhysics (1 / 60) h)
          = vadd (position g)
              (multiplyScalar (vec 0 (y (velocity g) * (1 - k) - b) (z (velocity g) * (1 - k)))
                 (1 / 60))"
    and cr: "crashed (updatePhysics (1 / 60) h)
          \<longleftrightarrow> crashed h \<or> y (position (updatePhysics (1 / 60) h)) < 0"
    and vel: "\<not> y (position (updatePhysics (1 / 60) h)) < 0 \<Longrightarrow>
          velocity (updatePhysics (1 / 60) h)
            = vec 0 (y (velocity g) * (1 - k) - b) (z (velocity g) * (1 - k))"
    using updatePhysics_level [of h] hf hs gx gy gh by (metis (no_types, lifting))
  have k1: "k \<le> 1" using k by linarith
  define wy where "wy = y (velocity g) * (1 - k) - b"
  define wz where "wz = z (velocity g) * (1 - k)"
  have "y (velocity g) * (1 - k) \<le> 0"
    using gy k k1 by (simp add: mult_le_0_iff)
  then have wy_le: "wy \<le> - (327 / 10000)" using b by (simp add: wy_def)
  have wy_abs: "\<bar>wy\<bar> \<le> 30" and wz_abs: "\<bar>wz\<bar> \<le> 30"
    using abs_y_le_vlength [of wy wz] abs_z_le_vlength [of wz wy] v30
    by (simp_all add: wy_def wz_def)
  have py: "y (position (step 0 0 (1 / 60) g)) = y (position g) + wy / 60"
    and pz: "z (position (step 0 0 (1 / 60) g)) = z (position g) + wz / 60"
    and px': "x (position (step 0 0 (1 / 60) g)) = 0"
    unfolding st pos by (simp_all add: vadd_def multiplyScalar_def wy_def wz_def px)
  show "y (position (step 0 0 (1 / 60) g)) \<le> y (position g) - 327 / 600000"
    unfolding py using wy_le by simp
  show "y (position g) - 1 / 2 \<le> y (position (step 0 0 (1 / 60) g))"
    unfolding py using wy_abs by simp
  show "\<bar>z (position (step 0 0 (1 / 60) g)) - z (position g)\<bar> \<le> 1 / 2"
    unfolding pz using wz_abs by simp
  show "x (position (step 0 0 (1 / 60) g)) = 0" by (rule px')
  show c: "crashed (step 0 0 (1 / 60) g) \<longleftrightarrow> y (position (step 0 0 (1 / 60) g)) < 0"
    unfolding st using cr hf(7) by simp
  show "glide_inv (step 0 0 (1 / 60) g)" if n: "\<not> crashed (step 0 0 (1 / 60) g)"
  proof -
    have ny: "\<not> y (position (updatePhysics (1 / 60) h)) < 0"
      using n c unfolding st by simp
    have v: "velocity (step 0 0 (1 / 60) g) = vec 0 wy wz"
      unfolding st wy_def wz_def by (rule vel [OF ny])
    have "getSpeed (step 0 0 (1 / 60) g) \<le> 30"
      using v30 by (simp add: getSpeed_def v wy_def wz_def)
    moreover have "y (velocity (step 0 0 (1 / 60) g)) \<le> 0"
      using wy_le by (simp add: v)
    moreover have "pitch (step 0 0 (1 / 60) g) = 0" "roll (step 0 0 (1 / 60) g) = 0"
      "yaw (step 0 0 (1 / 60) g) = 0"
      unfolding st by (simp_all add: updatePhysics_angles hf)
    ultimately show ?thesis
      using n px' by (simp add: glide_inv_def v)
  qed
  have v: "velocity (step 0 0 (1 / 60) g) = vec 0 wy wz"
    if n: "\<not> crashed (step 0 0 (1 / 60) g)"
  proof -
    have ny: "\<not> y (position (updatePhysics (1 / 60) h)) < 0"
      using n c unfolding st by simp
    show ?thesis unfolding st wy_def wz_def by (rule vel [OF ny])
  qed
  show "y (velocity (step 0 0 (1 / 60) g)) \<le> 19 / 20 * y (velocity g) - 327 / 10000
          \<and> y (position (step 0 0 (1 / 60) g))
              = y (position g) + y (velocity (step 0 0 (1 / 60) g)) / 60"
    if n: "\<not> crashed (step 0 0 (1 / 60) g)"
  proof -
    have "19 / 20 \<le> 1 - k" using k by simp
    then have "(1 - k) * y (velocity g) \<le> 19 / 20 * y (velocity g)"
      using gy by (rule mult_right_mono_neg)
    then have "wy \<le> 19 / 20 * y (velocity g) - 327 / 10000"
      using b by (simp add: wy_def mult.commute)
    then show ?thesis using py by (simp add: v [OF n])
  qed
  show "\<exists>k. 0 \<le> k \<and> k \<le> 1 / 20 \<and> (1 / 10 < getSpeed g \<longrightarrow> getSpeed g / 3000 \<le> k)
            \<and> z (velocity (step 0 0 (1 / 60) g)) = z (velocity g) * (1 - k)
            \<and> z (position (step 0 0 (1 / 60) g))
                = z (position g) + z (velocity (step 0 0 (1 / 60) g)) / 60"
    if n: "\<not> crashed (step 0 0 (1 / 60) g)"
    using k ks pz by (intro exI [of _ k]) (simp add: v [OF n] wz_def)
qed

lemma steps_append: "steps (xs @ ys) g = steps ys (steps xs g)"
  by (induction xs arbitrary: g) auto

lemma glide_Suc: "glide (Suc n) g = step 0 0 (1 / 60) (glide n g)"
proof -
  have "replicate (Suc n) (0::real, 0::real, 1 / 60 :: real)
        = replicate n (0, 0, 1 / 60) @ [(0, 0, 1 / 60)]"
    by (simp add: replicate_append_same)
  then show ?thesis
    by (simp only: glide_def steps_append steps.simps)
qed

lemma glide_0: "glide 0 g = g"
  by (simp add: glide_def)

lemma glide_inv_new: "glide_inv (Glider_new tp)"
  by (simp add: glide_inv_def Glider_new_def getSpeed_def vlength_z)

lemma glide_bounds:
  assumes "n \<le> 1000"
  shows "glide_inv (glide n (Glider_new tp))
     \<and> 1000 - real n / 2 \<le> y (position (glide n (Glider_new tp)))
     \<and> \<bar>z (position (glide n (Glider_new tp)))\<bar> \<le> real n / 2"
  using assms
proof (induction n)
  case 0
  show ?case
    using glide_inv_new [of tp] by (simp add: glide_0) (simp add: Glider_new_def)
next
  case (Suc n)
  let ?g = "glide n (Glider_new tp)"
  from Suc have inv: "glide_inv ?g" and lo: "1000 - real n / 2 \<le> y (position ?g)"
    and zb: "\<bar>z (position ?g)\<bar> \<le> real n / 2"
    by simp_all
  note s = glide_step [OF inv]
  have n: "real n \<le> 999" using Suc.prems by simp
  have half: "real (Suc n) / 2 = real n / 2 + 1 / 2" by (simp add: add_divide_distrib)
  have lo': "1000 - real (Suc n) / 2 \<le> y (position (step 0 0 (1 / 60) ?g))"
    unfolding half using s(2) lo by linarith
  then have "\<not> y (position (step 0 0 (1 / 60) ?g)) < 0" unfolding half using n by linarith
  then have "\<not> crashed (step 0 0 (1 / 60) ?g)" using s(5) by simp
  then have "glide_inv (step 0 0 (1 / 60) ?g)" by (rule s(6))
  moreover have "\<bar>z (position (step 0 0 (1 / 60) ?g))\<bar> \<le> real (Suc n) / 2"
    unfolding half using s(3) zb by linarith
  ultimately show ?case using lo' by (simp only: glide_Suc) 
qed










lemma getHeightAt_flat_terrain:
  assumes "\<bar>wz\<bar> \<le> 1500"
  shows "getHeightAt (loadTerrain 2 2 (replicate 16 255)) 0 wz = Inr 2000"
proof -
  let ?t0 = "LocalTerrainProvider_new
          \<lparr>opt_width = Some 5700, opt_depth = Some 3000, opt_maxHeight = Some 2000,
           opt_minHeight = None, opt_segments = Some 256\<rparr>"
  let ?tp = "loadTerrain 2 2 (replicate 16 255)"
  have red: "\<forall>i < 2 * 2. replicate 16 (255::nat) ! (i * 4) = 255" by simp
  have m: "maxHeight ?t0 = 2000" and m0: "minHeight ?t0 = 0"
    by (simp_all add: LocalTerrainProvider_new_def or_default_def)
  obtain d where l: "field_loaded ?tp d" and c: "\<forall>s \<in> set d. s = maxHeight ?t0"
    using loadHeightmap_flat [of 2 2 "replicate 16 255" ?t0] red
    unfolding loadTerrain_def by (auto simp add: m m0 fl64_2000 fl32_2000)
  have dims: "terrainWidth ?tp = 5700" "terrainDepth ?tp = 3000"
    by (simp_all add: loadTerrain_def loadHeightmap_def LocalTerrainProvider_new_def
        or_default_def)
  have hd: "heightData ?tp \<noteq> None" using l by (simp add: field_loaded_def)
  let ?v = "(wz + 3000 / 2) / 3000"
  have v: "0 \<le> ?v" "?v \<le> 1" using assms by (simp_all add: abs_le_iff)
  have "sampleHeightmap ?tp (1 / 2) ?v = Inr 2000"
    using sampleHeightmap_const [OF l _ _ v, of "1 / 2" "maxHeight ?t0"] c m by simp
  then show ?thesis
    using hd v by (simp add: getHeightAt_def Let_def dims)
qed




section \<open>The ground check and the terrain\<close>

lemma ground_check_iff:
  "crashed (ground_check g) \<longleftrightarrow> crashed g \<or> y (position (ground_check g)) < 0"
  by (simp add: ground_check_def crash_def)

lemma crashed_before_ground_check:
  "crashed (integrate_position dt (clamp_speed (apply_dive f dt g))) = crashed g"
  by (simp add: integrate_position_def clamp_speed_def apply_dive_def Let_def)

lemma updatePhysics_crashed_iff:
  "crashed (updatePhysics dt g) \<longleftrightarrow> crashed g \<or> y (position (updatePhysics dt g)) < 0"
  unfolding updatePhysics_def Let_def
  by (subst ground_check_iff) (simp add: crashed_before_ground_check stage_frames)

lemma updateRotation_crashed: "crashed (updateRotation dt g) = crashed g"
  by (simp add: updateRotation_def Let_def)

lemma update_crashed_iff:
  "\<not> crashed g \<Longrightarrow> crashed (update dt g) \<longleftrightarrow> y (position (update dt g)) < 0"
  using updatePhysics_crashed_iff [of "min dt 0.1" "updateRotation (min dt 0.1) g"]
  by (simp add: update_def Let_def updateRotation_crashed)

lemma Game_init_glider: "glider (Game_init w h pixels) = Glider_new None"
  by (simp add: Game_init_def Let_def Glider_new_def)

lemma update_new: "update (1 / 60) (Glider_new tp) = glide 1 (Glider_new tp)"
proof -
  have "setInput 0 0 (Glider_new tp) = Glider_new tp"
    by (simp add: setInput_def Glider_new_def)
  then have "step 0 0 (1 / 60) (Glider_new tp) = update (1 / 60) (Glider_new tp)"
    by (simp add: step_def)
  then show ?thesis
    using glide_Suc [of 0 "Glider_new tp"] by (simp add: glide_0)
qed

text \<open>
  C1, what the code does. For a glider that is not crashed, \<open>update\<close> sets the crashed
  flag exactly when the integrated altitude is below 0: no terrain height enters the
  ground check. The constructor drops the terrain provider that \<open>Game.init\<close> passes, so
  the glider of the game is the glider built without one. In the game whose heightmap is
  2 by 2 pixels of value 255 (terrain height 2000 m over the whole footprint), after the
  first update of 1/60 s the terrain height at the glider's position is 2000, the
  glider's altitude is below it (and not below 0), and the glider is not crashed.
\<close>

theorem ground_check_ignores_terrain:
  "(\<not> crashed g \<longrightarrow> (crashed (update dt g) \<longleftrightarrow> y (position (update dt g)) < 0))
   \<and> Glider_new (Some tp) = Glider_new None
   \<and> glider (Game_init w h pixels) = Glider_new None
   \<and> getHeightAt (terrainProvider (Game_init 2 2 (replicate 16 255)))
        (x (position (update (1 / 60) (glider (Game_init 2 2 (replicate 16 255))))))
        (z (position (update (1 / 60) (glider (Game_init 2 2 (replicate 16 255)))))) = Inr 2000
   \<and> y (position (update (1 / 60) (glider (Game_init 2 2 (replicate 16 255))))) < 2000
   \<and> 0 \<le> y (position (update (1 / 60) (glider (Game_init 2 2 (replicate 16 255)))))
   \<and> \<not> crashed (update (1 / 60) (glider (Game_init 2 2 (replicate 16 255))))"
proof -
  let ?g1 = "update (1 / 60) (glider (Game_init 2 2 (replicate 16 255)))"
  have e: "?g1 = glide 1 (Glider_new None)"
    by (simp only: Game_init_glider update_new)
  have tp: "terrainProvider (Game_init 2 2 (replicate 16 255)) = loadTerrain 2 2 (replicate 16 255)"
    by (simp add: Game_init_def Let_def)
  have b: "glide_inv ?g1" "1000 - real (1::nat) / 2 \<le> y (position ?g1)"
    "\<bar>z (position ?g1)\<bar> \<le> real (1::nat) / 2"
    unfolding e using glide_bounds [of 1 None] by simp_all
  have lt: "y (position ?g1) < 2000"
    unfolding e using glide_step(1) [OF glide_inv_new [of None]]
    by (simp add: glide_Suc [of 0, simplified] glide_0 Glider_new_def)
  have x0: "x (position ?g1) = 0" using b(1) by (simp add: glide_inv_def)
  have h: "getHeightAt (terrainProvider (Game_init 2 2 (replicate 16 255)))
        (x (position ?g1)) (z (position ?g1)) = Inr 2000"
    unfolding tp x0 by (rule getHeightAt_flat_terrain) (use b(3) in simp)
  have nc: "\<not> crashed ?g1" using b(1) by (simp add: glide_inv_def)
  have ge: "0 \<le> y (position ?g1)" using b(2) by simp
  have n: "Glider_new (Some tp) = Glider_new None" by (simp add: Glider_new_def)
  from update_crashed_iff [of g dt] n Game_init_glider [of w h pixels] h lt ge nc
  show ?thesis by blast
qed

theorem ground_check_ignores_terrain_witness:
  "\<not> crashed (Glider_new None)
   \<and> (crashed (update (1 / 60) (Glider_new None))
        \<longleftrightarrow> y (position (update (1 / 60) (Glider_new None))) < 0)
   \<and> \<not> crashed (update (1 / 60) (glider (Game_init 2 2 (replicate 16 255))))"
proof -
  have "\<not> crashed (Glider_new None)" by (simp add: Glider_new_def)
  with ground_check_ignores_terrain [of "Glider_new None" "1 / 60"]
  show ?thesis by blast
qed



end
